theory Spec2Isabelle
  imports Main "HOL-Library.Word" "HOL-Library.Log_Nat"
begin

unbundle bit_operations_syntax

section \<open>Go's float64\<close>

text \<open>
  The statistics of pinger are Go \<^verbatim>\<open>float64\<close> values. A value is a rational (every
  finite binary64 number is one), an infinity or NaN. Each arithmetic operation computes
  the exact result and rounds it to the nearest binary64 number, ties to even, as IEEE 754
  prescribes and Go implements. The sign of a zero is not modelled: the values of a run,
  counts and elapsed times, are not negative, and no operation yields a negative zero from
  them.
\<close>

datatype float64 = Finite rat | PosInf | NegInf | NaN

definition pow2 :: "int \<Rightarrow> rat" where
  "pow2 e = (if 0 \<le> e then 2 ^ nat e else 1 / 2 ^ nat (- e))"

text \<open>Rounding a rational to the nearest integer, a tie to the even neighbour.\<close>

definition round_half_even :: "rat \<Rightarrow> int" where
  "round_half_even x =
     (let f = \<lfloor>x\<rfloor>; d = x - of_int f
      in if d < 1 / 2 then f else if 1 / 2 < d then f + 1
         else if even f then f else f + 1)"

text \<open>\<open>ilog2 x\<close> is the binary exponent of a positive rational: \<open>2 ^ e \<le> x < 2 ^ (e + 1)\<close>.\<close>

definition ilog2 :: "rat \<Rightarrow> int" where
  "ilog2 x =
     (let (p, q) = quotient_of x;
          d = bitlen p - bitlen q
      in if pow2 d \<le> x then d else d - 1)"

text \<open>
  Rounding to binary64: 53 significant bits, the exponent between -1022 and 1023, gradual
  underflow below \<open>2 ^ -1022\<close> (the quantum stays \<open>2 ^ -1074\<close>) and overflow to an
  infinity when the rounded value reaches \<open>2 ^ 1024\<close>.
\<close>

definition round64 :: "rat \<Rightarrow> float64" where
  "round64 x =
     (if x = 0 then Finite 0
      else let e = max (ilog2 \<bar>x\<bar>) (- 1022);
               q = pow2 (e - 52);
               m = round_half_even (x / q)
           in if 1024 \<le> e \<or> (e = 1023 \<and> \<bar>m\<bar> = 2 ^ 53)
              then (if 0 < x then PosInf else NegInf)
              else Finite (of_int m * q))"

text \<open>The conversion \<^verbatim>\<open>float64(n)\<close> of a Go \<^verbatim>\<open>int\<close>.\<close>

definition float64_of_int :: "int \<Rightarrow> float64" where
  "float64_of_int n = round64 (of_int n)"

fun fadd :: "float64 \<Rightarrow> float64 \<Rightarrow> float64" where
  "fadd NaN _ = NaN"
| "fadd _ NaN = NaN"
| "fadd PosInf NegInf = NaN"
| "fadd NegInf PosInf = NaN"
| "fadd PosInf _ = PosInf"
| "fadd _ PosInf = PosInf"
| "fadd NegInf _ = NegInf"
| "fadd _ NegInf = NegInf"
| "fadd (Finite a) (Finite b) = round64 (a + b)"

fun fneg :: "float64 \<Rightarrow> float64" where
  "fneg NaN = NaN"
| "fneg PosInf = NegInf"
| "fneg NegInf = PosInf"
| "fneg (Finite a) = Finite (- a)"

definition fsub :: "float64 \<Rightarrow> float64 \<Rightarrow> float64" where
  "fsub x y = fadd x (fneg y)"

text \<open>The sign of a float that is not NaN: -1, 0 or 1.\<close>

fun fsign :: "float64 \<Rightarrow> int" where
  "fsign (Finite a) = (if a < 0 then - 1 else if a = 0 then 0 else 1)"
| "fsign PosInf = 1"
| "fsign NegInf = - 1"
| "fsign NaN = 0"

definition inf_of_sign :: "int \<Rightarrow> float64" where
  "inf_of_sign s = (if s = 0 then NaN else if 0 < s then PosInf else NegInf)"

fun fmul :: "float64 \<Rightarrow> float64 \<Rightarrow> float64" where
  "fmul NaN _ = NaN"
| "fmul _ NaN = NaN"
| "fmul (Finite a) (Finite b) = round64 (a * b)"
| "fmul x y = inf_of_sign (fsign x * fsign y)"

text \<open>
  Division of floats never panics in Go: a finite non-zero value divided by zero is an
  infinity, and \<open>0 / 0\<close> is NaN.
\<close>

fun fdiv :: "float64 \<Rightarrow> float64 \<Rightarrow> float64" where
  "fdiv NaN _ = NaN"
| "fdiv _ NaN = NaN"
| "fdiv (Finite a) (Finite b) = (if b = 0 then inf_of_sign (fsign (Finite a)) else round64 (a / b))"
| "fdiv (Finite a) _ = Finite 0"
| "fdiv x (Finite b) = inf_of_sign (fsign x * (if b < 0 then - 1 else 1))"
| "fdiv _ _ = NaN"

text \<open>The comparison \<^verbatim>\<open>x < y\<close>; it is false when an operand is NaN.\<close>

fun flt :: "float64 \<Rightarrow> float64 \<Rightarrow> bool" where
  "flt NaN _ = False"
| "flt _ NaN = False"
| "flt (Finite a) (Finite b) = (a < b)"
| "flt NegInf NegInf = False"
| "flt NegInf _ = True"
| "flt _ NegInf = False"
| "flt PosInf _ = False"
| "flt _ PosInf = True"

text \<open>
  \<^verbatim>\<open>math.Sqrt\<close> is the correctly rounded square root. For a positive rational \<open>x\<close> with
  \<open>4 ^ e \<le> x < 4 ^ (e + 1)\<close> the root has exponent \<open>e\<close>; its 53-bit significand is the
  integer square root of \<open>x / q\<^sup>2\<close> for the quantum \<open>q = 2 ^ (e - 52)\<close>, rounded up when
  \<open>x / q\<^sup>2\<close> lies above the square of the midpoint.
\<close>

fun isqrt_bits :: "nat \<Rightarrow> int \<Rightarrow> int \<Rightarrow> int" where
  "isqrt_bits 0 n r = r"
| "isqrt_bits (Suc k) n r =
     (let c = r + 2 ^ k in if c * c \<le> n then isqrt_bits k n c else isqrt_bits k n r)"

definition sqrt64 :: "rat \<Rightarrow> float64" where
  "sqrt64 x =
     (if x = 0 then Finite 0
      else let e = ilog2 x div 2;
               q = pow2 (e - 52);
               n = x / (q * q);
               m = isqrt_bits 54 \<lfloor>n\<rfloor> 0;
               h = (of_int m + 1 / 2) * (of_int m + 1 / 2);
               m' = (if n < h then m else if h < n then m + 1
                     else if even m then m else m + 1)
           in Finite (of_int m' * q))"

fun fsqrt :: "float64 \<Rightarrow> float64" where
  "fsqrt NaN = NaN"
| "fsqrt PosInf = PosInf"
| "fsqrt NegInf = NaN"
| "fsqrt (Finite a) = (if a < 0 then NaN else sqrt64 a)"

text \<open>
  \<^verbatim>\<open>math.Pow(x, 2)\<close>: the square of \<open>x\<close>, rounded once (Go squares the significand and
  rescales, which is exact away from underflow; round-trip times are far from it).
\<close>

definition fpow2 :: "float64 \<Rightarrow> float64" where
  "fpow2 x = fmul x x"

text \<open>
  The verb \<^verbatim>\<open>%.nf\<close> prints the decimal with \<open>n\<close> fractional digits nearest to the exact
  value of the float, ties to even: \<open>Dec m n\<close> stands for the text of \<open>m / 10 ^ n\<close>. A
  negative value that rounds to zero keeps its sign in the text (\<^verbatim>\<open>-0.0\<close>), which is
  \<open>NegZero n\<close>.
\<close>

datatype fixed_text = Dec int nat | NegZero nat | TextNaN | TextPosInf | TextNegInf

fun fmt_f :: "nat \<Rightarrow> float64 \<Rightarrow> fixed_text" where
  "fmt_f n (Finite a) =
     (let m = round_half_even (a * 10 ^ n) in if m = 0 \<and> a < 0 then NegZero n else Dec m n)"
| "fmt_f n NaN = TextNaN"
| "fmt_f n PosInf = TextPosInf"
| "fmt_f n NegInf = TextNegInf"

section \<open>Printed lines\<close>

text \<open>
  The program writes to standard output with \<^verbatim>\<open>fmt.Printf\<close>. One value of \<open>line\<close>
  stands for one call, with the arguments of its format string; every format string of the
  probe loop ends in one newline, so one call prints one line.
\<close>

type_synonym byte = "8 word"

type_synonym error = string

text \<open>
  An ICMP type is an \<^verbatim>\<open>ipv4.ICMPType\<close> or an \<^verbatim>\<open>ipv6.ICMPType\<close>, both integers, behind
  the interface \<^verbatim>\<open>icmp.Type\<close>. Two interface values are equal when the dynamic types and
  the numbers agree, which is the equality of this datatype.
\<close>

datatype ICMPType = ICMPv4 int | ICMPv6 int

datatype line =
    StartLine string int "string option"
  | IfaceErrorLine string error
  | ListenErrorLine int error
  | GenerateErrorLine error
  | SendErrorLine error
  | ParseErrorLine error
  | InvalidEchoLine
  | ReplyLine int string int int fixed_text
  | UnreachableLine string int
  | TTLExceededLine string int
  | HopLimitExceededLine string int
  | InfoV6Line string int ICMPType
  | OtherTypeLine string int ICMPType
  | TimeoutLine int
  | ReadErrorLine error
  | StatsHeaderLine string
  | CountsLine int int int fixed_text
  | RoundTripLine fixed_text fixed_text fixed_text fixed_text
  | ResolveErrorLine error

section \<open>Statistics\<close>

text \<open>
  \<^verbatim>\<open>PingStats\<close>: the counters are Go \<^verbatim>\<open>int\<close>s (64 bits; in a run they start at 0 and
  grow by one at most once for each probe, and the count of probes is an \<^verbatim>\<open>int8\<close> flag, so
  the increments of a run do not wrap), the rest are \<^verbatim>\<open>float64\<close>. The fields
  \<^verbatim>\<open>min\<close> and \<^verbatim>\<open>max\<close> are named \<open>min_rtt\<close> and \<open>max_rtt\<close> here.
\<close>

record PingStats =
  transmitted :: int
  received :: int
  errors :: int
  min_rtt :: float64
  max_rtt :: float64
  sum1 :: float64
  sum2 :: float64
  mean :: float64
  stddev :: float64

text \<open>The zero value \<^verbatim>\<open>PingStats{}\<close>.\<close>

definition zero_stats :: PingStats where
  "zero_stats =
     \<lparr>transmitted = 0, received = 0, errors = 0, min_rtt = Finite 0, max_rtt = Finite 0,
      sum1 = Finite 0, sum2 = Finite 0, mean = Finite 0, stddev = Finite 0\<rparr>"

definition iterativeStats :: "float64 \<Rightarrow> PingStats \<Rightarrow> PingStats" where
  "iterativeStats time stats =
     (let s1 = (if received stats = 1 then stats\<lparr>min_rtt := time\<rparr> else stats);
          s2 = (if flt time (min_rtt s1) then s1\<lparr>min_rtt := time\<rparr> else s1);
          s3 = (if flt (max_rtt s2) time then s2\<lparr>max_rtt := time\<rparr> else s2)
      in s3\<lparr>sum1 := fadd (sum1 s3) time, sum2 := fadd (sum2 s3) (fpow2 time)\<rparr>)"

definition finalStats :: "PingStats \<Rightarrow> PingStats" where
  "finalStats stats =
     (let m = fdiv (sum1 stats) (float64_of_int (received stats))
      in stats\<lparr>mean := m,
              stddev := fsqrt (fsub (fdiv (sum2 stats) (float64_of_int (received stats)))
                                    (fpow2 m))\<rparr>)"

text \<open>
  The arithmetic of a Go \<^verbatim>\<open>int\<close> is that of 64 bits in two's complement: \<open>wrap64\<close> is
  the value that a result has in the type.
\<close>

definition wrap64 :: "int \<Rightarrow> int" where
  "wrap64 n = signed_take_bit 63 n"

text \<open>
  The loss percentage that \<^verbatim>\<open>PrintStatistics\<close> computes before it prints. The function
  takes any statistics, so the subtraction of the counters is written with its wrap.
\<close>

definition dropPercentage :: "PingStats \<Rightarrow> float64" where
  "dropPercentage stats =
     (if 0 < transmitted stats
      then fmul (fdiv (float64_of_int (wrap64 (transmitted stats - received stats)))
                      (float64_of_int (transmitted stats)))
                (Finite 100)
      else Finite 0)"

text \<open>
  \<^verbatim>\<open>PrintStatistics\<close> takes the statistics by pointer: it returns the lines it prints and
  the statistics as it leaves them.
\<close>

definition PrintStatistics :: "PingStats \<Rightarrow> line list \<times> PingStats" where
  "PrintStatistics stats =
     (let hd_lines = [StatsHeaderLine ''target'',
                      CountsLine (transmitted stats) (received stats) (errors stats)
                        (fmt_f 1 (dropPercentage stats))]
      in if 0 < received stats
         then (let stats' = finalStats stats
               in (hd_lines @ [RoundTripLine (fmt_f 3 (min_rtt stats')) (fmt_f 3 (mean stats'))
                                 (fmt_f 3 (max_rtt stats')) (fmt_f 3 (stddev stats'))],
                   stats'))
         else (hd_lines, stats))"

section \<open>ICMP messages\<close>

text \<open>
  The wire format of package \<^verbatim>\<open>golang.org/x/net/icmp\<close>, which the source calls to build
  and to read messages. A message is the type, the code, the checksum and a body. The
  body of an echo request or reply is \<open>Echo id seq data\<close> (the fields \<^verbatim>\<open>ID\<close>, \<^verbatim>\<open>Seq\<close>
  and \<^verbatim>\<open>Data\<close> of \<^verbatim>\<open>icmp.Echo\<close>); every other body is kept as its bytes.
\<close>

datatype MessageBody = Echo int int "byte list" | OtherBody "byte list"

record Message =
  Type :: ICMPType
  Code :: int
  Checksum :: int
  Body :: MessageBody

definition ipv4_ICMPTypeEchoReply :: ICMPType where
  "ipv4_ICMPTypeEchoReply = ICMPv4 0"

definition ipv4_ICMPTypeDestinationUnreachable :: ICMPType where
  "ipv4_ICMPTypeDestinationUnreachable = ICMPv4 3"

definition ipv4_ICMPTypeEcho :: ICMPType where
  "ipv4_ICMPTypeEcho = ICMPv4 8"

definition ipv4_ICMPTypeTimeExceeded :: ICMPType where
  "ipv4_ICMPTypeTimeExceeded = ICMPv4 11"

definition ipv6_ICMPTypeDestinationUnreachable :: ICMPType where
  "ipv6_ICMPTypeDestinationUnreachable = ICMPv6 1"

definition ipv6_ICMPTypeTimeExceeded :: ICMPType where
  "ipv6_ICMPTypeTimeExceeded = ICMPv6 3"

definition ipv6_ICMPTypeEchoRequest :: ICMPType where
  "ipv6_ICMPTypeEchoRequest = ICMPv6 128"

definition ipv6_ICMPTypeEchoReply :: ICMPType where
  "ipv6_ICMPTypeEchoReply = ICMPv6 129"

definition ipv6_ICMPTypeRouterSolicitation :: ICMPType where
  "ipv6_ICMPTypeRouterSolicitation = ICMPv6 133"

definition ipv6_ICMPTypeRouterAdvertisement :: ICMPType where
  "ipv6_ICMPTypeRouterAdvertisement = ICMPv6 134"

definition ipv6_ICMPTypeNeighborSolicitation :: ICMPType where
  "ipv6_ICMPTypeNeighborSolicitation = ICMPv6 135"

definition ipv6_ICMPTypeNeighborAdvertisement :: ICMPType where
  "ipv6_ICMPTypeNeighborAdvertisement = ICMPv6 136"

definition protocolICMP :: int where
  "protocolICMP = 1"

definition protocolICMPv6 :: int where
  "protocolICMPv6 = 58"

definition pingDataSize :: int where
  "pingDataSize = 64"

definition defaultTTL :: int where
  "defaultTTL = 64"

definition errMessageTooShort :: error where
  "errMessageTooShort = ''message too short''"

definition errInvalidProtocol :: error where
  "errInvalidProtocol = ''invalid protocol''"

text \<open>A 16-bit number in network byte order, written and read.\<close>

definition put_uint16 :: "16 word \<Rightarrow> byte list" where
  "put_uint16 w = [ucast (drop_bit 8 w), ucast w]"

definition get_uint16 :: "byte \<Rightarrow> byte \<Rightarrow> 16 word" where
  "get_uint16 hi lo = push_bit 8 (ucast hi) OR ucast lo"

text \<open>
  The Internet checksum as package icmp computes it: the bytes are summed in pairs, the
  second byte of a pair the high one, in 32 bits; an odd last byte is added alone; the
  carries are folded into 16 bits and the result is complemented.
\<close>

fun checksum_sum :: "byte list \<Rightarrow> 32 word \<Rightarrow> 32 word" where
  "checksum_sum (b0 # b1 # bs) s = checksum_sum bs (s + (push_bit 8 (ucast b1) OR ucast b0))"
| "checksum_sum [b] s = s + ucast b"
| "checksum_sum [] s = s"

definition checksum :: "byte list \<Rightarrow> 16 word" where
  "checksum b =
     (let s = checksum_sum b 0;
          s1 = drop_bit 16 s + (s AND 0xffff);
          s2 = s1 + drop_bit 16 s1
      in NOT (ucast s2))"

definition type_byte :: "ICMPType \<Rightarrow> byte" where
  "type_byte t = (case t of ICMPv4 n \<Rightarrow> word_of_int n | ICMPv6 n \<Rightarrow> word_of_int n)"

definition type_protocol :: "ICMPType \<Rightarrow> int" where
  "type_protocol t = (case t of ICMPv4 _ \<Rightarrow> 1 | ICMPv6 _ \<Rightarrow> 58)"

definition marshal_body :: "MessageBody \<Rightarrow> byte list" where
  "marshal_body body =
     (case body of
        Echo ident sq payload \<Rightarrow> put_uint16 (word_of_int ident) @ put_uint16 (word_of_int sq) @ payload
      | OtherBody payload \<Rightarrow> payload)"

text \<open>
  \<^verbatim>\<open>Message.Marshal(nil)\<close>: the four header bytes, then the body. With no pseudo header
  an ICMPv6 message is returned with a zero checksum (the kernel fills it in); an ICMPv4
  message gets the checksum of its bytes, low byte first, stored by exclusive or.
\<close>

definition Marshal :: "Message \<Rightarrow> error + byte list" where
  "Marshal m =
     (let b = [type_byte (Type m), word_of_int (Code m), 0, 0] @ marshal_body (Body m)
      in if type_protocol (Type m) = 58 then Inr b
         else let s = checksum b
              in Inr (b[2 := (b ! 2) XOR ucast s, 3 := (b ! 3) XOR ucast (drop_bit 8 s)]))"

definition parseEcho :: "byte list \<Rightarrow> error + MessageBody" where
  "parseEcho b =
     (case b of
        i0 # i1 # s0 # s1 # payload \<Rightarrow>
          Inr (Echo (uint (get_uint16 i0 i1)) (uint (get_uint16 s0 s1)) payload)
      | _ \<Rightarrow> Inl errMessageTooShort)"

text \<open>
  \<^verbatim>\<open>icmp.ParseMessage\<close>: at least four bytes; the protocol number chooses the kind of the
  type; the checksum is read and not verified. The four echo types are parsed by
  \<open>parseEcho\<close>. The parsers of the other bodies (destination unreachable, time exceeded,
  raw bodies and the rest, with their extensions) are the argument \<open>other\<close>: the source
  never looks into such a body.
\<close>

type_synonym body_parser = "int \<Rightarrow> ICMPType \<Rightarrow> byte list \<Rightarrow> error + MessageBody"

definition is_echo_type :: "ICMPType \<Rightarrow> bool" where
  "is_echo_type t =
     (t = ipv4_ICMPTypeEcho \<or> t = ipv4_ICMPTypeEchoReply \<or>
      t = ipv6_ICMPTypeEchoRequest \<or> t = ipv6_ICMPTypeEchoReply)"

definition ParseMessage :: "body_parser \<Rightarrow> int \<Rightarrow> byte list \<Rightarrow> error + Message" where
  "ParseMessage other proto b =
     (case b of
        t # c # k0 # k1 # rest \<Rightarrow>
          if proto \<noteq> 1 \<and> proto \<noteq> 58 then Inl errInvalidProtocol
          else let typ = (if proto = 1 then ICMPv4 (uint t) else ICMPv6 (uint t))
               in (case (if is_echo_type typ then parseEcho rest else other proto typ rest) of
                     Inl err \<Rightarrow> Inl err
                   | Inr body \<Rightarrow>
                       Inr \<lparr>Type = typ, Code = uint c, Checksum = uint (get_uint16 k0 k1),
                            Body = body\<rparr>)
      | _ \<Rightarrow> Inl errMessageTooShort)"

section \<open>The probe engine\<close>

text \<open>
  What the engine reads from outside the program. A read from the socket fails with a
  timeout (a \<^verbatim>\<open>net.Error\<close> whose \<^verbatim>\<open>Timeout()\<close> is true) or with another error.
\<close>

datatype read_error = NetTimeout error | ReadFailure error

text \<open>
  \<open>probe_io\<close> is what the network does with the probe of one sequence number: the error
  of the write, and for the read the bytes (\<^verbatim>\<open>binReply[:numBytes]\<close>), the TTL or hop limit
  of the control message when there is one, the peer address, the error, and the time in
  milliseconds that \<^verbatim>\<open>recvICMPRequest\<close> measures since the send.
\<close>

record probe_io =
  send_error :: "error option"
  recv_bytes :: "byte list"
  recv_control :: "int option"
  recv_peer :: string
  recv_error :: "read_error option"
  recv_elapsed :: float64

text \<open>
  \<open>world\<close>: the process id, the lookup of a network interface by name, the opening of
  the raw socket, the network, and the library's parsers of the bodies other than echo.
\<close>

record world =
  getpid :: int
  interface_error :: "string \<Rightarrow> error option"
  listen_error :: "string \<Rightarrow> error option"
  network :: "int \<Rightarrow> probe_io"
  other_bodies :: body_parser

record ICMPInfo =
  IP :: string
  Iface :: string
  TTL :: int
  CNT :: int

text \<open>The state of a handler: the statistics and the lines printed so far.\<close>

record probe_state =
  stats :: PingStats
  printed :: "line list"

definition emit :: "line \<Rightarrow> probe_state \<Rightarrow> probe_state" where
  "emit l st = st\<lparr>printed := printed st @ [l]\<rparr>"

definition inc_transmitted :: "probe_state \<Rightarrow> probe_state" where
  "inc_transmitted st = st\<lparr>stats := (stats st)\<lparr>transmitted := transmitted (stats st) + 1\<rparr>\<rparr>"

definition inc_received :: "probe_state \<Rightarrow> probe_state" where
  "inc_received st = st\<lparr>stats := (stats st)\<lparr>received := received (stats st) + 1\<rparr>\<rparr>"

definition inc_errors :: "probe_state \<Rightarrow> probe_state" where
  "inc_errors st = st\<lparr>stats := (stats st)\<lparr>errors := errors (stats st) + 1\<rparr>\<rparr>"

text \<open>The payload of every echo request.\<close>

definition bytes_of :: "string \<Rightarrow> byte list" where
  "bytes_of s = map (\<lambda>c. of_nat (of_char c)) s"

definition echo_payload :: "byte list" where
  "echo_payload = bytes_of ''Never stop learning because life never stops teaching!!!''"

definition constructMarshalledMessage :: "world \<Rightarrow> ICMPType \<Rightarrow> int \<Rightarrow> error + byte list" where
  "constructMarshalledMessage w msgType seqNum =
     Marshal \<lparr>Type = msgType, Code = 0, Checksum = 0,
              Body = Echo (getpid w AND 0xffff) seqNum echo_payload\<rparr>"

text \<open>
  \<^verbatim>\<open>sendICMPRequest\<close> writes the request to the socket, through the interface when one is
  given, and returns the start time and the error of the write; the time only enters
  through the elapsed time the read measures. Its switch writes for the two protocols
  only. The address, the interface and the socket are part of \<open>probe_io\<close>.
\<close>

definition sendICMPRequest :: "probe_io \<Rightarrow> byte list \<Rightarrow> int \<Rightarrow> error option" where
  "sendICMPRequest io request proto =
     (if proto = protocolICMP \<or> proto = protocolICMPv6 then send_error io else None)"

text \<open>
  \<^verbatim>\<open>recvICMPRequest\<close> reads for the two protocols only; the TTL is the default when the
  read brings no control message.
\<close>

definition recvICMPRequest ::
    "int \<Rightarrow> probe_io \<Rightarrow> byte list \<times> float64 \<times> int \<times> string \<times> read_error option" where
  "recvICMPRequest proto io =
     (if proto = protocolICMP \<or> proto = protocolICMPv6
      then (recv_bytes io, recv_elapsed io,
            (case recv_control io of None \<Rightarrow> defaultTTL | Some t \<Rightarrow> t),
            recv_peer io, recv_error io)
      else ([], recv_elapsed io, defaultTTL, [], None))"

definition printICMPResponse ::
    "world \<Rightarrow> int \<Rightarrow> byte list \<Rightarrow> string \<Rightarrow> int \<Rightarrow> int \<Rightarrow> float64 \<Rightarrow> probe_state \<Rightarrow> probe_state" where
  "printICMPResponse w proto data peer sq receivedTTL elapsedMs st =
     (case ParseMessage (other_bodies w) proto data of
        Inl err \<Rightarrow> inc_errors (emit (ParseErrorLine err) st)
      | Inr reply \<Rightarrow>
          if Type reply = ipv4_ICMPTypeEchoReply \<or> Type reply = ipv6_ICMPTypeEchoReply then
            (case Body reply of
               Echo echo_id echo_seq echo_data \<Rightarrow>
                 (let st1 = inc_received st;
                      st2 = st1\<lparr>stats := iterativeStats elapsedMs (stats st1)\<rparr>
                  in emit (ReplyLine (int (length data)) peer echo_seq receivedTTL
                             (fmt_f 3 elapsedMs)) st2)
             | OtherBody _ \<Rightarrow> inc_errors (emit InvalidEchoLine st))
          else if Type reply = ipv4_ICMPTypeDestinationUnreachable \<or>
                  Type reply = ipv6_ICMPTypeDestinationUnreachable then
            emit (UnreachableLine peer sq) (inc_errors st)
          else if Type reply = ipv4_ICMPTypeTimeExceeded \<or>
                  Type reply = ipv6_ICMPTypeTimeExceeded then
            (if proto = protocolICMP then emit (TTLExceededLine peer sq) (inc_errors st)
             else emit (HopLimitExceededLine peer sq) (inc_errors st))
          else if Type reply = ipv6_ICMPTypeNeighborAdvertisement \<or>
                  Type reply = ipv6_ICMPTypeNeighborSolicitation \<or>
                  Type reply = ipv6_ICMPTypeRouterAdvertisement \<or>
                  Type reply = ipv6_ICMPTypeRouterSolicitation then
            emit (InfoV6Line peer sq (Type reply)) st
          else emit (OtherTypeLine peer sq (Type reply)) (inc_errors st))"

definition printReadError :: "read_error \<Rightarrow> int \<Rightarrow> probe_state \<Rightarrow> probe_state" where
  "printReadError err sq st =
     (case err of
        NetTimeout _ \<Rightarrow> inc_errors (emit (TimeoutLine sq) st)
      | ReadFailure e \<Rightarrow> inc_errors (emit (ReadErrorLine e) st))"

text \<open>
  One iteration of the loop \<^verbatim>\<open>for i := range info.CNT\<close>. The loops of the two handlers
  have the same body but for the protocol number and the type of the echo request.
  \<open>probe_continue\<close> is the iteration from the result of the encoding on. The deadline
  of the read and the pause of a second after a classified reply are time, and are left
  to the network.
\<close>

definition probe_continue ::
    "world \<Rightarrow> int \<Rightarrow> int \<Rightarrow> error + byte list \<Rightarrow> probe_state \<Rightarrow> probe_state" where
  "probe_continue w proto i encoded st =
     (case encoded of
        Inl err \<Rightarrow> inc_errors (emit (GenerateErrorLine err) st)
      | Inr request \<Rightarrow>
          (case sendICMPRequest (network w i) request proto of
             Some err \<Rightarrow> inc_errors (emit (SendErrorLine err) st)
           | None \<Rightarrow>
               (case recvICMPRequest proto (network w i) of
                  (reply, elapsedMs, receivedTTL, peerAddr, rerr) \<Rightarrow>
                    (case rerr of
                       Some err \<Rightarrow> printReadError err i st
                     | None \<Rightarrow>
                         printICMPResponse w proto reply peerAddr i receivedTTL elapsedMs st))))"

definition probe_iteration :: "world \<Rightarrow> int \<Rightarrow> ICMPType \<Rightarrow> int \<Rightarrow> probe_state \<Rightarrow> probe_state" where
  "probe_iteration w proto msgType i st =
     probe_continue w proto i (constructMarshalledMessage w msgType i) (inc_transmitted st)"

text \<open>
  \<open>probe_loop w proto msgType k st\<close> is the state after the first \<open>k\<close> iterations, those
  of the sequence numbers \<open>0\<close> to \<open>k - 1\<close>. \<^verbatim>\<open>range info.CNT\<close> runs \<open>nat CNT\<close> of them
  (none when the count is negative).
\<close>

fun probe_loop :: "world \<Rightarrow> int \<Rightarrow> ICMPType \<Rightarrow> nat \<Rightarrow> probe_state \<Rightarrow> probe_state" where
  "probe_loop w proto msgType 0 st = st"
| "probe_loop w proto msgType (Suc k) st =
     probe_iteration w proto msgType (int k) (probe_loop w proto msgType k st)"

text \<open>
  A handler returns, or ends the process with \<^verbatim>\<open>os.Exit(1)\<close> when the interface does not
  exist or the socket cannot be opened. The goroutine that waits for an interrupt is not
  modelled: these are the runs that no signal interrupts.
\<close>

record run =
  run_stats :: PingStats
  run_output :: "line list"
  exit_code :: "int option"

definition start_line :: "ICMPInfo \<Rightarrow> line" where
  "start_line info =
     (if Iface info \<noteq> [] then StartLine (IP info) pingDataSize (Some (Iface info))
      else StartLine (IP info) pingDataSize None)"

text \<open>
  After the loop: \<^verbatim>\<open>stats.finalStats()\<close>, then \<^verbatim>\<open>PrintStatistics(&stats)\<close>, and the
  handler returns.
\<close>

definition finish :: "probe_state \<Rightarrow> run" where
  "finish st =
     (let final = finalStats (stats st)
      in case PrintStatistics final of
           (ls, final') \<Rightarrow> \<lparr>run_stats = final', run_output = printed st @ ls, exit_code = None\<rparr>)"

text \<open>
  The two handlers are the same code but for the initial statistics, the protocol number,
  the network of the socket and the type of the request; \<open>handler\<close> is that code:
  \<^verbatim>\<open>getInterface\<close> (a lookup only when a name is given), the first line, the opening of
  the socket, the loop, the summary.
\<close>

definition handler ::
    "world \<Rightarrow> ICMPInfo \<Rightarrow> PingStats \<Rightarrow> int \<Rightarrow> string \<Rightarrow> ICMPType \<Rightarrow> run" where
  "handler w info stats0 proto net msgType =
     (case (if Iface info = [] then None else interface_error w (Iface info)) of
        Some err \<Rightarrow>
          \<lparr>run_stats = stats0, run_output = [IfaceErrorLine (Iface info) err], exit_code = Some 1\<rparr>
      | None \<Rightarrow>
          (case listen_error w net of
             Some err \<Rightarrow>
               \<lparr>run_stats = stats0, run_output = [start_line info, ListenErrorLine proto err],
                exit_code = Some 1\<rparr>
           | None \<Rightarrow>
               finish (probe_loop w proto msgType (nat (CNT info))
                         \<lparr>stats = stats0, printed = [start_line info]\<rparr>)))"

definition ICMP6Handler :: "world \<Rightarrow> ICMPInfo \<Rightarrow> run" where
  "ICMP6Handler w info =
     handler w info (zero_stats\<lparr>min_rtt := Finite (- 1)\<rparr>) protocolICMPv6 ''ip6:ipv6-icmp''
       ipv6_ICMPTypeEchoRequest"

definition ICMP4Handler :: "world \<Rightarrow> ICMPInfo \<Rightarrow> run" where
  "ICMP4Handler w info =
     handler w info zero_stats protocolICMP ''ip4:icmp'' ipv4_ICMPTypeEcho"

section \<open>Address resolution\<close>

subsection \<open>Regular expressions\<close>

text \<open>
  \<^verbatim>\<open>validateHostname\<close> matches the host against a regular expression anchored at both
  ends, so the whole string has to be in its language. Membership is decided with
  derivatives. A character class is a list of ranges, as between the brackets of the
  source. A Go string is a sequence of bytes, an Isabelle string a list of 8-bit
  characters; the classes of the expression are ASCII, and a byte of a longer UTF-8
  sequence is in none of them.
\<close>

datatype regex =
    Empty
  | Eps
  | Chars "(char \<times> char) list"
  | Cat regex regex
  | Alt regex regex
  | Star regex

definition in_ranges :: "char \<Rightarrow> (char \<times> char) list \<Rightarrow> bool" where
  "in_ranges c rs =
     list_ex (\<lambda>(lo, hi). (of_char lo :: nat) \<le> of_char c \<and> (of_char c :: nat) \<le> of_char hi) rs"

fun nullable :: "regex \<Rightarrow> bool" where
  "nullable Empty = False"
| "nullable Eps = True"
| "nullable (Chars rs) = False"
| "nullable (Cat a b) = (nullable a \<and> nullable b)"
| "nullable (Alt a b) = (nullable a \<or> nullable b)"
| "nullable (Star a) = True"

fun deriv :: "char \<Rightarrow> regex \<Rightarrow> regex" where
  "deriv c Empty = Empty"
| "deriv c Eps = Empty"
| "deriv c (Chars rs) = (if in_ranges c rs then Eps else Empty)"
| "deriv c (Cat a b) =
     (if nullable a then Alt (Cat (deriv c a) b) (deriv c b) else Cat (deriv c a) b)"
| "deriv c (Alt a b) = Alt (deriv c a) (deriv c b)"
| "deriv c (Star a) = Cat (deriv c a) (Star a)"

definition MatchString :: "regex \<Rightarrow> string \<Rightarrow> bool" where
  "MatchString re s = nullable (fold deriv s re)"

subsection \<open>Package strings\<close>

text \<open>
  \<^verbatim>\<open>strings.TrimSpace\<close> removes the leading and trailing white space of Unicode. These are
  the UTF-8 encodings of the code points with the property White_Space: U+0009 to
  U+000D, U+0020, U+0085, U+00A0, U+1680, U+2000 to U+200A, U+2028, U+2029, U+202F,
  U+205F and U+3000.
\<close>

definition white_space :: "string list" where
  "white_space =
     [[CHR 0x09], [CHR 0x0A], [CHR 0x0B], [CHR 0x0C], [CHR 0x0D], [CHR 0x20],
      [CHR 0xC2, CHR 0x85], [CHR 0xC2, CHR 0xA0], [CHR 0xE1, CHR 0x9A, CHR 0x80],
      [CHR 0xE2, CHR 0x80, CHR 0x80], [CHR 0xE2, CHR 0x80, CHR 0x81],
      [CHR 0xE2, CHR 0x80, CHR 0x82], [CHR 0xE2, CHR 0x80, CHR 0x83],
      [CHR 0xE2, CHR 0x80, CHR 0x84], [CHR 0xE2, CHR 0x80, CHR 0x85],
      [CHR 0xE2, CHR 0x80, CHR 0x86], [CHR 0xE2, CHR 0x80, CHR 0x87],
      [CHR 0xE2, CHR 0x80, CHR 0x88], [CHR 0xE2, CHR 0x80, CHR 0x89],
      [CHR 0xE2, CHR 0x80, CHR 0x8A], [CHR 0xE2, CHR 0x80, CHR 0xA8],
      [CHR 0xE2, CHR 0x80, CHR 0xA9], [CHR 0xE2, CHR 0x80, CHR 0xAF],
      [CHR 0xE2, CHR 0x81, CHR 0x9F], [CHR 0xE3, CHR 0x80, CHR 0x80]]"

fun starts_with :: "string \<Rightarrow> string \<Rightarrow> bool" where
  "starts_with s [] = True"
| "starts_with [] (p # ps) = False"
| "starts_with (c # cs) (p # ps) = (c = p \<and> starts_with cs ps)"

text \<open>The length of the member of \<open>ps\<close> that \<open>s\<close> starts with, 0 when there is none.\<close>

definition prefix_length :: "string list \<Rightarrow> string \<Rightarrow> nat" where
  "prefix_length ps s = (case filter (starts_with s) ps of [] \<Rightarrow> 0 | p # _ \<Rightarrow> length p)"

function trim_prefixes :: "string list \<Rightarrow> string \<Rightarrow> string" where
  "trim_prefixes ps s =
     (let n = prefix_length ps s
      in if n = 0 \<or> length s < n then s else trim_prefixes ps (drop n s))"
  by pat_completeness auto
termination
  by (relation "measure (\<lambda>(ps, s). length s)") auto

definition TrimSpace :: "string \<Rightarrow> string" where
  "TrimSpace s = rev (trim_prefixes (map rev white_space) (rev (trim_prefixes white_space s)))"

fun Contains :: "string \<Rightarrow> string \<Rightarrow> bool" where
  "Contains [] sub = (sub = [])"
| "Contains (c # cs) sub = (starts_with (c # cs) sub \<or> Contains cs sub)"

subsection \<open>Package net\<close>

text \<open>
  \<^verbatim>\<open>net.ParseIP\<close> reads a textual address and returns it in 16 bytes, or nil. The first
  of the characters \<open>.\<close>, \<open>:\<close> and \<open>%\<close> in the string decides: a dot sends the string to the
  parser of dotted decimal IPv4, a colon to the parser of IPv6, and a string with neither,
  or with a zone, is no address. The IPv4 parser wants four decimal fields between 0 and
  255, none empty and none with a leading zero. The parser of IPv6 text and the DNS
  lookup \<^verbatim>\<open>net.LookupHost\<close> are left to the record \<open>resolver\<close>.
\<close>

record resolver =
  parse_ipv6 :: "string \<Rightarrow> 128 word option"
  LookupHost :: "string \<Rightarrow> error + string list"

definition is_digit :: "char \<Rightarrow> bool" where
  "is_digit c = (48 \<le> (of_char c :: nat) \<and> (of_char c :: nat) \<le> 57)"

fun ipv4_fields :: "string \<Rightarrow> nat \<Rightarrow> nat \<Rightarrow> nat list \<Rightarrow> nat list option" where
  "ipv4_fields [] val digLen octets =
     (if digLen = 0 \<or> length octets \<noteq> 3 then None else Some (octets @ [val]))"
| "ipv4_fields (c # cs) val digLen octets =
     (if is_digit c then
        (if digLen = 1 \<and> val = 0 then None
         else let v = val * 10 + (of_char c - 48)
              in if 255 < v then None else ipv4_fields cs v (digLen + 1) octets)
      else if c = CHR ''.'' then
        (if digLen = 0 \<or> length octets = 3 then None else ipv4_fields cs 0 0 (octets @ [val]))
      else None)"

definition parseIPv4 :: "string \<Rightarrow> nat list option" where
  "parseIPv4 s = ipv4_fields s 0 0 []"

fun first_separator :: "string \<Rightarrow> char option" where
  "first_separator [] = None"
| "first_separator (c # cs) =
     (if c = CHR ''.'' \<or> c = CHR '':'' \<or> c = CHR ''%'' then Some c else first_separator cs)"

definition v4_in_v6_prefix :: "byte list" where
  "v4_in_v6_prefix = [0, 0, 0, 0, 0, 0, 0, 0, 0, 0, 0xff, 0xff]"

definition bytes_of_128 :: "128 word \<Rightarrow> byte list" where
  "bytes_of_128 w = map (\<lambda>i. ucast (drop_bit (8 * (15 - i)) w)) [0..<16]"

definition ParseIP :: "resolver \<Rightarrow> string \<Rightarrow> byte list option" where
  "ParseIP r s =
     (case first_separator s of
        None \<Rightarrow> None
      | Some c \<Rightarrow>
          if c = CHR ''.'' then map_option (\<lambda>fs. v4_in_v6_prefix @ map of_nat fs) (parseIPv4 s)
          else if c = CHR '':'' then map_option bytes_of_128 (parse_ipv6 r s)
          else None)"

text \<open>
  \<^verbatim>\<open>IP.To16\<close> and \<^verbatim>\<open>IP.To4\<close>: an address of 4 or of 16 bytes has a 16-byte form; it has a
  4-byte form when it has 4 bytes, or 16 bytes that begin with the prefix of an IPv4
  address mapped into IPv6.
\<close>

definition To16 :: "byte list \<Rightarrow> byte list option" where
  "To16 ip =
     (if length ip = 4 then Some (v4_in_v6_prefix @ ip)
      else if length ip = 16 then Some ip
      else None)"

definition To4 :: "byte list \<Rightarrow> byte list option" where
  "To4 ip =
     (if length ip = 4 then Some ip
      else if length ip = 16 \<and> take 12 ip = v4_in_v6_prefix then Some (drop 12 ip)
      else None)"

subsection \<open>The resolution of the host argument\<close>

record AddrOptions =
  V4 :: bool
  V6 :: bool

record UnMarshalledAddr =
  Addr :: string
  IsIPv6 :: bool

text \<open>The zero value \<^verbatim>\<open>UnMarshalledAddr{}\<close>.\<close>

definition no_addr :: UnMarshalledAddr where
  "no_addr = \<lparr>Addr = [], IsIPv6 = False\<rparr>"

definition valIPv6 :: "resolver \<Rightarrow> string \<Rightarrow> bool \<times> error option" where
  "valIPv6 r addr =
     (case ParseIP r addr of
        None \<Rightarrow> (False, Some (addr @ '' is not a valid IP address''))
      | Some ip \<Rightarrow> if To16 ip \<noteq> None then (True, None) else (False, None))"

definition valIPv4 :: "resolver \<Rightarrow> string \<Rightarrow> bool \<times> error option" where
  "valIPv4 r addr =
     (case ParseIP r addr of
        None \<Rightarrow> (False, Some (addr @ '' is not a valid IP address''))
      | Some ip \<Rightarrow> if To4 ip \<noteq> None then (True, None) else (False, None))"

definition alnum :: regex where
  "alnum = Chars [(CHR ''a'', CHR ''z''), (CHR ''A'', CHR ''Z''), (CHR ''0'', CHR ''9'')]"

definition alnum_hyphen :: regex where
  "alnum_hyphen =
     Chars [(CHR ''a'', CHR ''z''), (CHR ''A'', CHR ''Z''), (CHR ''0'', CHR ''9''),
            (CHR ''-'', CHR ''-'')]"

definition letter :: regex where
  "letter = Chars [(CHR ''a'', CHR ''z''), (CHR ''A'', CHR ''Z'')]"

text \<open>
  The expression of the source,
  \<^verbatim>\<open>^(([a-zA-Z0-9]|[a-zA-Z0-9][a-zA-Z0-9\-]*[a-zA-Z0-9])\.)*([a-zA-Z]{1,})$\<close>.
\<close>

definition hostnameRegex :: regex where
  "hostnameRegex =
     Cat (Star (Cat (Alt alnum (Cat alnum (Cat (Star alnum_hyphen) alnum)))
                    (Chars [(CHR ''.'', CHR ''.'')])))
         (Cat letter (Star letter))"

definition validateHostname :: "string \<Rightarrow> bool" where
  "validateHostname host0 =
     (let host = TrimSpace host0
      in if Contains host ''..'' then False else MatchString hostnameRegex host)"

text \<open>The loop of \<^verbatim>\<open>HostToAddr\<close> over the addresses of the lookup, in their order.\<close>

fun pick_address :: "resolver \<Rightarrow> AddrOptions \<Rightarrow> string list \<Rightarrow> UnMarshalledAddr option" where
  "pick_address r options [] = None"
| "pick_address r options (ip # ips) =
     (if V4 options \<and> fst (valIPv4 r ip) then Some \<lparr>Addr = ip, IsIPv6 = False\<rparr>
      else if V6 options \<and> fst (valIPv6 r ip) then Some \<lparr>Addr = ip, IsIPv6 = True\<rparr>
      else pick_address r options ips)"

definition HostToAddr :: "resolver \<Rightarrow> string \<Rightarrow> AddrOptions \<Rightarrow> UnMarshalledAddr \<times> error option" where
  "HostToAddr r host options =
     (if V4 options \<and> V6 options
      then (no_addr, Some ''only one -4 or -6 option may be specified'')
      else case LookupHost r host of
             Inl err \<Rightarrow> (no_addr, Some err)
           | Inr listOfIPs \<Rightarrow>
               if \<not> V4 options \<and> \<not> V6 options \<and> listOfIPs \<noteq> []
               then (\<lparr>Addr = hd listOfIPs, IsIPv6 = fst (valIPv6 r (hd listOfIPs))\<rparr>, None)
               else (case pick_address r options listOfIPs of
                       Some addr \<Rightarrow> (addr, None)
                     | None \<Rightarrow>
                         (no_addr,
                          Some (''could not resolve hostname '' @ host @
                                ''. Please ensure a valid hostname is used''))))"

definition AddrResolution :: "resolver \<Rightarrow> string \<Rightarrow> AddrOptions \<Rightarrow> UnMarshalledAddr \<times> error option" where
  "AddrResolution r host options =
     (if validateHostname host then HostToAddr r host options
      else case valIPv6 r host of
             (isIPv6, Some err) \<Rightarrow> (no_addr, Some err)
           | (isIPv6, None) \<Rightarrow>
               if V6 options \<and> isIPv6 then (\<lparr>Addr = host, IsIPv6 = True\<rparr>, None)
               else (case valIPv4 r host of
                       (isIPv4, Some err) \<Rightarrow> (no_addr, Some err)
                     | (isIPv4, None) \<Rightarrow>
                         if isIPv4 then (\<lparr>Addr = host, IsIPv6 = False\<rparr>, None)
                         else if V6 options \<noteq> isIPv6
                         then (no_addr, Some (''option -6 specified does not match given IP: '' @ host))
                         else if V4 options \<noteq> isIPv4
                         then (no_addr, Some (''option -4 specified does not match given IP: '' @ host))
                         else (no_addr, Some ''warning: an unexpected error occurred'')))"

subsection \<open>The command\<close>

text \<open>
  The flags of the command line; the TTL and the count are \<^verbatim>\<open>int8\<close>. \<^verbatim>\<open>Run\<close> resolves
  the argument, ends the process with status 1 when that fails, and otherwise starts the
  handler of the family that the resolution reports.
\<close>

record flags =
  v4Flag :: bool
  v6Flag :: bool
  ifaceFlag :: string
  ttlFlag :: "8 word"
  cntFlag :: "8 word"

datatype family = IPv4Family | IPv6Family

definition handler_of :: "UnMarshalledAddr \<Rightarrow> family" where
  "handler_of verified = (if \<not> IsIPv6 verified then IPv4Family else IPv6Family)"

definition Run :: "resolver \<Rightarrow> world \<Rightarrow> flags \<Rightarrow> string \<Rightarrow> run" where
  "Run r w fl addr =
     (case AddrResolution r addr \<lparr>V4 = v4Flag fl, V6 = v6Flag fl\<rparr> of
        (verified, Some err) \<Rightarrow>
          \<lparr>run_stats = zero_stats, run_output = [ResolveErrorLine err], exit_code = Some 1\<rparr>
      | (verified, None) \<Rightarrow>
          (let icmpInfo = \<lparr>IP = Addr verified, Iface = ifaceFlag fl, TTL = sint (ttlFlag fl),
                           CNT = sint (cntFlag fl)\<rparr>
           in case handler_of verified of
                IPv4Family \<Rightarrow> ICMP4Handler w icmpInfo
              | IPv6Family \<Rightarrow> ICMP6Handler w icmpInfo))"

section \<open>Example inputs\<close>

text \<open>
  The library's parser of a body that has no parser of its own keeps the bytes
  (\<^verbatim>\<open>parseRawBody\<close>); it stands for the parsers of all bodies other than echo in the
  examples.
\<close>

definition raw_bodies :: body_parser where
  "raw_bodies proto typ b = Inr (OtherBody b)"

text \<open>
  A run of five probes: the read of sequence number 2 times out, the other four reads
  return an echo reply (of the type whose number is \<open>reply_type\<close>) after 10, 20, 30 and 40
  milliseconds.
\<close>

definition scenario_latency :: "int \<Rightarrow> rat" where
  "scenario_latency i = (if i = 0 then 10 else if i = 1 then 20 else if i = 3 then 30 else 40)"

definition scenario_network :: "byte \<Rightarrow> int \<Rightarrow> probe_io" where
  "scenario_network reply_type i =
     \<lparr>send_error = None,
      recv_bytes = [reply_type, 0, 0, 0, 0x12, 0x34, 0, word_of_int i],
      recv_control = Some 57,
      recv_peer = ''192.0.2.1'',
      recv_error = (if i = 2 then Some (NetTimeout ''i/o timeout'') else None),
      recv_elapsed = Finite (scenario_latency i)\<rparr>"

definition scenario_world :: "int \<Rightarrow> body_parser \<Rightarrow> byte \<Rightarrow> world" where
  "scenario_world pid other reply_type =
     \<lparr>getpid = pid, interface_error = (\<lambda>name. None), listen_error = (\<lambda>net. None),
      network = scenario_network reply_type, other_bodies = other\<rparr>"

definition scenario_info :: ICMPInfo where
  "scenario_info = \<lparr>IP = ''192.0.2.1'', Iface = [], TTL = 64, CNT = 5\<rparr>"

text \<open>
  A resolver for a host with an address of each family, the IPv6 address first in the
  answer of the lookup.
\<close>

definition dual_stack_resolver :: resolver where
  "dual_stack_resolver =
     \<lparr>parse_ipv6 = (\<lambda>s. if s = ''2001:db8::1''
                         then Some 0x20010db8000000000000000000000001 else None),
      LookupHost = (\<lambda>host. if host = ''example.com''
                            then Inr [''2001:db8::1'', ''192.0.2.1'']
                            else Inl ''no such host'')\<rparr>"

section \<open>Notions of the statements\<close>

text \<open>The types that the switch of \<^verbatim>\<open>printICMPResponse\<close> names.\<close>

definition named_types :: "ICMPType list" where
  "named_types =
     [ipv4_ICMPTypeEchoReply, ipv6_ICMPTypeEchoReply,
      ipv4_ICMPTypeDestinationUnreachable, ipv6_ICMPTypeDestinationUnreachable,
      ipv4_ICMPTypeTimeExceeded, ipv6_ICMPTypeTimeExceeded,
      ipv6_ICMPTypeNeighborAdvertisement, ipv6_ICMPTypeNeighborSolicitation,
      ipv6_ICMPTypeRouterAdvertisement, ipv6_ICMPTypeRouterSolicitation]"

text \<open>
  \<open>counted st st' r e\<close>: from \<open>st\<close> to \<open>st'\<close> the count of replies grew by \<open>r\<close>, the count
  of errors by \<open>e\<close>, and the count of transmitted probes stayed.
\<close>

definition counted :: "probe_state \<Rightarrow> probe_state \<Rightarrow> int \<Rightarrow> int \<Rightarrow> bool" where
  "counted st st' r e =
     (transmitted (stats st') = transmitted (stats st) \<and>
      received (stats st') = received (stats st) + r \<and>
      errors (stats st') = errors (stats st) + e)"

section \<open>The state and the counters\<close>

lemma stats_emit [simp]: "stats (emit l st) = stats st"
  by (simp add: emit_def)

lemma printed_emit [simp]: "printed (emit l st) = printed st @ [l]"
  by (simp add: emit_def)

lemma printed_inc [simp]:
  "printed (inc_errors st) = printed st"
  "printed (inc_received st) = printed st"
  "printed (inc_transmitted st) = printed st"
  by (simp_all add: inc_errors_def inc_received_def inc_transmitted_def)

lemma counters_inc_errors [simp]:
  "transmitted (stats (inc_errors st)) = transmitted (stats st)"
  "received (stats (inc_errors st)) = received (stats st)"
  "errors (stats (inc_errors st)) = errors (stats st) + 1"
  by (simp_all add: inc_errors_def)

lemma counters_inc_received [simp]:
  "transmitted (stats (inc_received st)) = transmitted (stats st)"
  "received (stats (inc_received st)) = received (stats st) + 1"
  "errors (stats (inc_received st)) = errors (stats st)"
  by (simp_all add: inc_received_def)

lemma counters_inc_transmitted [simp]:
  "transmitted (stats (inc_transmitted st)) = transmitted (stats st) + 1"
  "received (stats (inc_transmitted st)) = received (stats st)"
  "errors (stats (inc_transmitted st)) = errors (stats st)"
  by (simp_all add: inc_transmitted_def)

lemma counters_iterativeStats [simp]:
  "transmitted (iterativeStats t s) = transmitted s"
  "received (iterativeStats t s) = received s"
  "errors (iterativeStats t s) = errors s"
  by (simp_all add: iterativeStats_def Let_def)

lemma counters_finalStats [simp]:
  "transmitted (finalStats s) = transmitted s"
  "received (finalStats s) = received s"
  "errors (finalStats s) = errors s"
  by (simp_all add: finalStats_def Let_def)

lemma counters_finish [simp]:
  "transmitted (run_stats (finish st)) = transmitted (stats st)"
  "received (run_stats (finish st)) = received (stats st)"
  "errors (run_stats (finish st)) = errors (stats st)"
  "exit_code (finish st) = None"
  by (simp_all add: finish_def PrintStatistics_def Let_def)

section \<open>Marshalling never fails\<close>

lemma Marshal_Inr: "\<exists>b. Marshal m = Inr b"
  by (simp add: Marshal_def Let_def)

lemma constructMarshalledMessage_Inr: "\<exists>b. constructMarshalledMessage w msgType i = Inr b"
  unfolding constructMarshalledMessage_def by (rule Marshal_Inr)

text \<open>
  So the branch of the loop for a failed encoding is never taken, and in the loops of the
  handlers an iteration is the send, the read and the classification.
\<close>

lemma probe_continue_Inr:
  assumes "proto = protocolICMP \<or> proto = protocolICMPv6"
  shows "probe_continue w proto i (Inr request) st =
     (case send_error (network w i) of
        Some err \<Rightarrow> inc_errors (emit (SendErrorLine err) st)
      | None \<Rightarrow>
          (case recv_error (network w i) of
             Some err \<Rightarrow> printReadError err i st
           | None \<Rightarrow>
               printICMPResponse w proto (recv_bytes (network w i)) (recv_peer (network w i)) i
                 (case recv_control (network w i) of None \<Rightarrow> defaultTTL | Some t \<Rightarrow> t)
                 (recv_elapsed (network w i)) st))"
  using assms
  by (simp add: probe_continue_def sendICMPRequest_def recvICMPRequest_def
      split: option.splits)

lemma probe_iteration_eq:
  assumes "proto = protocolICMP \<or> proto = protocolICMPv6"
  shows "probe_iteration w proto msgType i st =
     (case send_error (network w i) of
        Some err \<Rightarrow> inc_errors (emit (SendErrorLine err) (inc_transmitted st))
      | None \<Rightarrow>
          (case recv_error (network w i) of
             Some err \<Rightarrow> printReadError err i (inc_transmitted st)
           | None \<Rightarrow>
               printICMPResponse w proto (recv_bytes (network w i)) (recv_peer (network w i)) i
                 (case recv_control (network w i) of None \<Rightarrow> defaultTTL | Some t \<Rightarrow> t)
                 (recv_elapsed (network w i)) (inc_transmitted st)))"
proof -
  obtain b where "constructMarshalledMessage w msgType i = Inr b"
    using constructMarshalledMessage_Inr by blast
  then show ?thesis
    by (simp add: probe_iteration_def probe_continue_Inr [OF assms])
qed

lemmas probe_iteration_v4 = probe_iteration_eq [of protocolICMP, simplified]

lemmas probe_iteration_v6 = probe_iteration_eq [of protocolICMPv6, simplified]

section \<open>The branches of printICMPResponse\<close>

lemmas type_defs =
  ipv4_ICMPTypeEchoReply_def ipv4_ICMPTypeDestinationUnreachable_def ipv4_ICMPTypeEcho_def
  ipv4_ICMPTypeTimeExceeded_def ipv6_ICMPTypeDestinationUnreachable_def
  ipv6_ICMPTypeTimeExceeded_def ipv6_ICMPTypeEchoRequest_def ipv6_ICMPTypeEchoReply_def
  ipv6_ICMPTypeRouterSolicitation_def ipv6_ICMPTypeRouterAdvertisement_def
  ipv6_ICMPTypeNeighborSolicitation_def ipv6_ICMPTypeNeighborAdvertisement_def

lemma printICMPResponse_parse_error:
  "ParseMessage (other_bodies w) proto data = Inl err \<Longrightarrow>
   printICMPResponse w proto data peer sq ttl el st = inc_errors (emit (ParseErrorLine err) st)"
  by (simp add: printICMPResponse_def)

lemma printICMPResponse_echo_reply:
  "ParseMessage (other_bodies w) proto data = Inr reply \<Longrightarrow>
   Type reply = ipv4_ICMPTypeEchoReply \<or> Type reply = ipv6_ICMPTypeEchoReply \<Longrightarrow>
   Body reply = Echo echo_id echo_seq echo_data \<Longrightarrow>
   printICMPResponse w proto data peer sq ttl el st =
     emit (ReplyLine (int (length data)) peer echo_seq ttl (fmt_f 3 el))
       ((inc_received st)\<lparr>stats := iterativeStats el (stats (inc_received st))\<rparr>)"
  by (simp add: printICMPResponse_def Let_def)

lemma printICMPResponse_invalid_echo:
  "ParseMessage (other_bodies w) proto data = Inr reply \<Longrightarrow>
   Type reply = ipv4_ICMPTypeEchoReply \<or> Type reply = ipv6_ICMPTypeEchoReply \<Longrightarrow>
   Body reply = OtherBody payload \<Longrightarrow>
   printICMPResponse w proto data peer sq ttl el st = inc_errors (emit InvalidEchoLine st)"
  by (simp add: printICMPResponse_def)

lemma printICMPResponse_unreachable:
  "ParseMessage (other_bodies w) proto data = Inr reply \<Longrightarrow>
   Type reply = ipv4_ICMPTypeDestinationUnreachable \<or>
   Type reply = ipv6_ICMPTypeDestinationUnreachable \<Longrightarrow>
   printICMPResponse w proto data peer sq ttl el st = emit (UnreachableLine peer sq) (inc_errors st)"
  by (auto simp add: printICMPResponse_def type_defs)

lemma printICMPResponse_time_exceeded:
  "ParseMessage (other_bodies w) proto data = Inr reply \<Longrightarrow>
   Type reply = ipv4_ICMPTypeTimeExceeded \<or> Type reply = ipv6_ICMPTypeTimeExceeded \<Longrightarrow>
   printICMPResponse w proto data peer sq ttl el st =
     emit (if proto = protocolICMP then TTLExceededLine peer sq else HopLimitExceededLine peer sq)
       (inc_errors st)"
  by (auto simp add: printICMPResponse_def type_defs)

lemma printICMPResponse_discovery:
  "ParseMessage (other_bodies w) proto data = Inr reply \<Longrightarrow>
   Type reply = ipv6_ICMPTypeNeighborAdvertisement \<or>
   Type reply = ipv6_ICMPTypeNeighborSolicitation \<or>
   Type reply = ipv6_ICMPTypeRouterAdvertisement \<or>
   Type reply = ipv6_ICMPTypeRouterSolicitation \<Longrightarrow>
   printICMPResponse w proto data peer sq ttl el st = emit (InfoV6Line peer sq (Type reply)) st"
  by (auto simp add: printICMPResponse_def type_defs)

lemma printICMPResponse_other:
  "ParseMessage (other_bodies w) proto data = Inr reply \<Longrightarrow>
   Type reply \<notin> set named_types \<Longrightarrow>
   printICMPResponse w proto data peer sq ttl el st =
     emit (OtherTypeLine peer sq (Type reply)) (inc_errors st)"
  by (simp add: printICMPResponse_def named_types_def)

lemma printICMPResponse_counters:
  "counted st (printICMPResponse w proto data peer sq ttl el st) 1 0 \<or>
   counted st (printICMPResponse w proto data peer sq ttl el st) 0 1 \<or>
   counted st (printICMPResponse w proto data peer sq ttl el st) 0 0"
proof (cases "ParseMessage (other_bodies w) proto data")
  case (Inl err)
  then show ?thesis
    by (simp add: printICMPResponse_parse_error counted_def)
next
  case (Inr reply)
  define st' where "st' = printICMPResponse w proto data peer sq ttl el st"
  have "counted st st' 1 0 \<or> counted st st' 0 1 \<or> counted st st' 0 0"
    unfolding st'_def using Inr
    by (simp add: printICMPResponse_def counted_def Let_def split: MessageBody.splits)
  then show ?thesis by (simp add: st'_def)
qed

lemma printReadError_counters:
  "counted st (printReadError err sq st) 0 1"
  by (simp add: printReadError_def counted_def split: read_error.splits)

lemma printICMPResponse_printed:
  "\<exists>l. printed (printICMPResponse w proto data peer sq ttl el st) = printed st @ [l]"
proof (cases "ParseMessage (other_bodies w) proto data")
  case (Inl err)
  then show ?thesis by (simp add: printICMPResponse_def)
next
  case (Inr reply)
  then show ?thesis
    by (simp add: printICMPResponse_def Let_def split: MessageBody.splits)
qed

lemma printReadError_printed:
  "\<exists>l. printed (printReadError err sq st) = printed st @ [l]"
  by (simp add: printReadError_def split: read_error.splits)

section \<open>One iteration, and the loop\<close>

lemma probe_continue_printed:
  "\<exists>l. printed (probe_continue w proto i encoded st) = printed st @ [l]"
proof (cases encoded)
  case (Inl err)
  then show ?thesis by (simp add: probe_continue_def)
next
  case (Inr request)
  show ?thesis
  proof (cases "sendICMPRequest (network w i) request proto")
    case (Some err)
    with Inr show ?thesis by (simp add: probe_continue_def)
  next
    case None
    obtain reply elapsedMs receivedTTL peerAddr rerr where
      r: "recvICMPRequest proto (network w i) = (reply, elapsedMs, receivedTTL, peerAddr, rerr)"
      by (cases "recvICMPRequest proto (network w i)") auto
    show ?thesis
    proof (cases rerr)
      case read_error: (Some err)
      with Inr None r show ?thesis
        using printReadError_printed [of err i st] by (simp add: probe_continue_def)
    next
      case no_error: None
      with Inr \<open>sendICMPRequest (network w i) request proto = None\<close> r show ?thesis
        using printICMPResponse_printed [of w proto reply peerAddr i receivedTTL elapsedMs st]
        by (simp add: probe_continue_def)
    qed
  qed
qed

lemma probe_continue_counters:
  "counted st (probe_continue w proto i encoded st) 1 0 \<or>
   counted st (probe_continue w proto i encoded st) 0 1 \<or>
   counted st (probe_continue w proto i encoded st) 0 0"
proof (cases encoded)
  case (Inl err)
  then show ?thesis by (simp add: probe_continue_def counted_def)
next
  case (Inr request)
  show ?thesis
  proof (cases "sendICMPRequest (network w i) request proto")
    case (Some err)
    with Inr show ?thesis by (simp add: probe_continue_def counted_def)
  next
    case None
    obtain reply elapsedMs receivedTTL peerAddr rerr where
      r: "recvICMPRequest proto (network w i) = (reply, elapsedMs, receivedTTL, peerAddr, rerr)"
      by (cases "recvICMPRequest proto (network w i)") auto
    show ?thesis
    proof (cases rerr)
      case read_error: (Some err)
      with Inr None r show ?thesis
        using printReadError_counters [of st err i] by (simp add: probe_continue_def)
    next
      case no_error: None
      with Inr \<open>sendICMPRequest (network w i) request proto = None\<close> r show ?thesis
        using printICMPResponse_counters [of st w proto reply peerAddr i receivedTTL elapsedMs]
        by (simp add: probe_continue_def)
    qed
  qed
qed

lemma probe_iteration_printed:
  "\<exists>l. printed (probe_iteration w proto msgType i st) = printed st @ [l]"
  using probe_continue_printed [of w proto i _ "inc_transmitted st"]
  by (simp add: probe_iteration_def)

lemma probe_iteration_counters:
  "counted (inc_transmitted st) (probe_iteration w proto msgType i st) 1 0 \<or>
   counted (inc_transmitted st) (probe_iteration w proto msgType i st) 0 1 \<or>
   counted (inc_transmitted st) (probe_iteration w proto msgType i st) 0 0"
  unfolding probe_iteration_def by (rule probe_continue_counters)

lemma probe_iteration_transmitted:
  "transmitted (stats (probe_iteration w proto msgType i st)) = transmitted (stats st) + 1"
  using probe_iteration_counters [of st w proto msgType i]
  by (auto simp add: counted_def)

lemma probe_iteration_invariant:
  assumes "received (stats st) + errors (stats st) \<le> transmitted (stats st)"
  shows "received (stats (probe_iteration w proto msgType i st)) +
     errors (stats (probe_iteration w proto msgType i st))
       \<le> transmitted (stats (probe_iteration w proto msgType i st))"
  using probe_iteration_counters [of st w proto msgType i] assms
  by (auto simp add: counted_def)

lemma probe_loop_transmitted:
  "transmitted (stats (probe_loop w proto msgType k st)) = transmitted (stats st) + int k"
  by (induction k) (simp_all add: probe_iteration_transmitted)

lemma probe_loop_invariant:
  "received (stats st) + errors (stats st) \<le> transmitted (stats st) \<Longrightarrow>
   received (stats (probe_loop w proto msgType k st)) +
     errors (stats (probe_loop w proto msgType k st))
       \<le> transmitted (stats (probe_loop w proto msgType k st))"
  by (induction k) (simp_all add: probe_iteration_invariant)

lemma probe_loop_printed:
  "length (printed (probe_loop w proto msgType k st)) = length (printed st) + k"
proof (induction k)
  case 0
  show ?case by simp
next
  case (Suc k)
  obtain l where
    "printed (probe_iteration w proto msgType (int k) (probe_loop w proto msgType k st)) =
       printed (probe_loop w proto msgType k st) @ [l]"
    using probe_iteration_printed by blast
  with Suc show ?case by simp
qed

lemma handler_counters:
  assumes "transmitted s0 = 0" "received s0 = 0" "errors s0 = 0"
  shows "transmitted (run_stats (handler w info s0 proto net msgType)) =
           (if exit_code (handler w info s0 proto net msgType) = None then int (nat (CNT info)) else 0)"
    and "received (run_stats (handler w info s0 proto net msgType)) +
           errors (run_stats (handler w info s0 proto net msgType))
             \<le> transmitted (run_stats (handler w info s0 proto net msgType))"
proof -
  let ?st = "\<lparr>stats = s0, printed = [start_line info]\<rparr>"
  have inv: "received (stats ?st) + errors (stats ?st) \<le> transmitted (stats ?st)"
    using assms by simp
  show "transmitted (run_stats (handler w info s0 proto net msgType)) =
           (if exit_code (handler w info s0 proto net msgType) = None then int (nat (CNT info)) else 0)"
    using assms by (simp add: handler_def probe_loop_transmitted split: option.splits)
  show "received (run_stats (handler w info s0 proto net msgType)) +
           errors (run_stats (handler w info s0 proto net msgType))
             \<le> transmitted (run_stats (handler w info s0 proto net msgType))"
    using assms probe_loop_invariant [OF inv, of w proto msgType "nat (CNT info)"]
    by (simp add: handler_def split: option.splits)
qed

section \<open>The statistics of a run\<close>

text \<open>
  Claim C1. In every run of the probe loop with a count \<open>CNT \<ge> 0\<close>: an iteration adds
  exactly one to \<open>transmitted\<close>, whatever the network does (the increment comes before
  the encoding and the send, so a probe that is not sent is counted); after each of the
  first \<open>k \<le> CNT\<close> iterations \<open>received + errors \<le> transmitted\<close> and \<open>transmitted = k\<close>;
  and at the end of the loop \<open>transmitted = CNT\<close>. This holds for the loop of both
  handlers, and for the statistics a handler ends with (a handler that leaves the process
  before the loop, the socket not opened, has transmitted nothing). The second conjunct is
  the iteration for any result of the encoding, a failure included.
\<close>

theorem probe_loop_statistics:
  fixes w :: world and info :: ICMPInfo
  defines "loop4 \<equiv> \<lambda>k. stats (probe_loop w protocolICMP ipv4_ICMPTypeEcho k
                                  \<lparr>stats = zero_stats, printed = [start_line info]\<rparr>)"
    and "loop6 \<equiv> \<lambda>k. stats (probe_loop w protocolICMPv6 ipv6_ICMPTypeEchoRequest k
                                \<lparr>stats = zero_stats\<lparr>min_rtt := Finite (- 1)\<rparr>,
                                 printed = [start_line info]\<rparr>)"
  assumes count: "0 \<le> CNT info" and upto: "k \<le> nat (CNT info)"
  shows "transmitted (stats (probe_iteration w proto msgType i st)) = transmitted (stats st) + 1 \<and>
         transmitted (stats (probe_continue w proto i encoded (inc_transmitted st))) =
           transmitted (stats st) + 1 \<and>
         received (loop4 k) + errors (loop4 k) \<le> transmitted (loop4 k) \<and>
         transmitted (loop4 k) = int k \<and>
         transmitted (loop4 (nat (CNT info))) = CNT info \<and>
         received (loop6 k) + errors (loop6 k) \<le> transmitted (loop6 k) \<and>
         transmitted (loop6 k) = int k \<and>
         transmitted (loop6 (nat (CNT info))) = CNT info \<and>
         transmitted (run_stats (ICMP4Handler w info)) =
           (if exit_code (ICMP4Handler w info) = None then CNT info else 0) \<and>
         received (run_stats (ICMP4Handler w info)) + errors (run_stats (ICMP4Handler w info))
           \<le> transmitted (run_stats (ICMP4Handler w info)) \<and>
         transmitted (run_stats (ICMP6Handler w info)) =
           (if exit_code (ICMP6Handler w info) = None then CNT info else 0) \<and>
         received (run_stats (ICMP6Handler w info)) + errors (run_stats (ICMP6Handler w info))
           \<le> transmitted (run_stats (ICMP6Handler w info))"
proof -
  have z4: "transmitted zero_stats = 0" "received zero_stats = 0" "errors zero_stats = 0"
    by (simp_all add: zero_stats_def)
  have z6: "transmitted (zero_stats\<lparr>min_rtt := Finite (- 1)\<rparr>) = 0"
    "received (zero_stats\<lparr>min_rtt := Finite (- 1)\<rparr>) = 0"
    "errors (zero_stats\<lparr>min_rtt := Finite (- 1)\<rparr>) = 0"
    by (simp_all add: zero_stats_def)
  have t4: "transmitted (loop4 n) = int n" for n
    by (simp add: loop4_def probe_loop_transmitted z4)
  have t6: "transmitted (loop6 n) = int n" for n
    unfolding loop6_def by (simp add: probe_loop_transmitted zero_stats_def)
  have i4: "received (loop4 k) + errors (loop4 k) \<le> transmitted (loop4 k)"
    unfolding loop4_def by (rule probe_loop_invariant) (simp add: z4)
  have i6: "received (loop6 k) + errors (loop6 k) \<le> transmitted (loop6 k)"
    unfolding loop6_def by (rule probe_loop_invariant) (simp add: zero_stats_def)
  have h4: "transmitted (run_stats (ICMP4Handler w info)) =
           (if exit_code (ICMP4Handler w info) = None then CNT info else 0)"
    unfolding ICMP4Handler_def using handler_counters(1) [OF z4, of w info] count by simp
  have h6: "transmitted (run_stats (ICMP6Handler w info)) =
           (if exit_code (ICMP6Handler w info) = None then CNT info else 0)"
    unfolding ICMP6Handler_def using handler_counters(1) [OF z6, of w info] count by simp
  have g4: "received (run_stats (ICMP4Handler w info)) + errors (run_stats (ICMP4Handler w info))
           \<le> transmitted (run_stats (ICMP4Handler w info))"
    unfolding ICMP4Handler_def by (rule handler_counters(2) [OF z4])
  have g6: "received (run_stats (ICMP6Handler w info)) + errors (run_stats (ICMP6Handler w info))
           \<le> transmitted (run_stats (ICMP6Handler w info))"
    unfolding ICMP6Handler_def by (rule handler_counters(2) [OF z6])
  have enc: "transmitted (stats (probe_continue w proto i encoded (inc_transmitted st))) =
      transmitted (stats st) + 1"
    using probe_continue_counters [of "inc_transmitted st" w proto i encoded]
    by (auto simp add: counted_def)
  show ?thesis
    using t4 [of k] t4 [of "nat (CNT info)"] t6 [of k] t6 [of "nat (CNT info)"] i4 i6 h4 h6 g4 g6
      count enc
    by (simp add: probe_iteration_transmitted)
qed

lemma scenario_exit4: "exit_code (ICMP4Handler (scenario_world pid other t) scenario_info) = None"
  by (simp add: ICMP4Handler_def handler_def scenario_world_def scenario_info_def)

theorem probe_loop_statistics_witness:
  "0 \<le> CNT scenario_info \<and> (2::nat) \<le> nat (CNT scenario_info) \<and>
   transmitted (run_stats (ICMP4Handler (scenario_world 4660 raw_bodies 0) scenario_info)) = 5 \<and>
   transmitted (stats (probe_loop (scenario_world 4660 raw_bodies 0) protocolICMP ipv4_ICMPTypeEcho 2
       \<lparr>stats = zero_stats, printed = [start_line scenario_info]\<rparr>)) = 2"
proof -
  have c: "0 \<le> CNT scenario_info" and k: "(2::nat) \<le> nat (CNT scenario_info)"
    by (simp_all add: scenario_info_def)
  show ?thesis
    using probe_loop_statistics [OF c k, of "scenario_world 4660 raw_bodies 0"]
      scenario_exit4 [of 4660 raw_bodies 0] c k
    by (simp add: scenario_info_def)
qed

section \<open>One line for each probe\<close>

text \<open>
  Claim C9. Every iteration of the loop, whatever its outcome, appends exactly one line to
  the output; so the probe of sequence number \<open>k\<close> adds one line after those of the
  earlier probes, \<open>k\<close> iterations print \<open>k\<close> lines, and the number of lines the loop prints
  is the number of probes it counts as transmitted. The second conjunct is the iteration
  for any result of the encoding, a failure included.
\<close>

theorem one_line_per_probe:
  "(\<exists>l. printed (probe_iteration w proto msgType i st) = printed st @ [l]) \<and>
   (\<exists>l. printed (probe_continue w proto i encoded st) = printed st @ [l]) \<and>
   (\<exists>l. printed (probe_loop w proto msgType (Suc k) st) =
          printed (probe_loop w proto msgType k st) @ [l]) \<and>
   length (printed (probe_loop w proto msgType k st)) = length (printed st) + k \<and>
   int (length (printed (probe_loop w proto msgType k st))) - int (length (printed st)) =
     transmitted (stats (probe_loop w proto msgType k st)) - transmitted (stats st)"
  using probe_iteration_printed [of w proto msgType i st]
    probe_continue_printed [of w proto i encoded st]
    probe_iteration_printed [of w proto msgType "int k" "probe_loop w proto msgType k st"]
  by (simp add: probe_loop_printed probe_loop_transmitted)

section \<open>The classification of a reply\<close>

text \<open>
  What \<^verbatim>\<open>iterativeStats\<close> leaves in each field, called after the increment of
  \<open>received\<close>: the test \<^verbatim>\<open>received == 1\<close> recognises the first reply.
\<close>

lemma iterativeStats_fields:
  "sum1 (iterativeStats el (s\<lparr>received := received s + 1\<rparr>)) = fadd (sum1 s) el"
  "sum2 (iterativeStats el (s\<lparr>received := received s + 1\<rparr>)) = fadd (sum2 s) (fmul el el)"
  "min_rtt (iterativeStats el (s\<lparr>received := received s + 1\<rparr>)) =
     (if received s = 0 \<or> flt el (min_rtt s) then el else min_rtt s)"
  "max_rtt (iterativeStats el (s\<lparr>received := received s + 1\<rparr>)) =
     (if flt (max_rtt s) el then el else max_rtt s)"
  "mean (iterativeStats el (s\<lparr>received := received s + 1\<rparr>)) = mean s"
  "stddev (iterativeStats el (s\<lparr>received := received s + 1\<rparr>)) = stddev s"
  by (simp_all add: iterativeStats_def Let_def fpow2_def)

text \<open>
  Claim C7. For a message that \<^verbatim>\<open>icmp.ParseMessage\<close> accepts: an echo reply with an echo
  body prints the reply line, adds one to \<open>received\<close> and feeds the latency to the
  statistics (the latency is added to the sum, its square to the sum of squares, it becomes
  the minimum when it is the first reply or below the minimum, the maximum when it is above
  the maximum, and the mean and the deviation stay); destination unreachable and time exceeded print their line and add one to
  \<open>errors\<close>; the neighbour and router discovery types of IPv6 print an informational
  line and leave the statistics as they are; every type the switch does not name adds one
  to \<open>errors\<close>. No message moves more than one of the two counters, and none by more
  than one.
\<close>

theorem reply_classification:
  fixes w :: world and proto :: int and data :: "byte list" and peer :: string and sq :: int
    and ttl :: int and el :: float64 and st :: probe_state
  defines "st' \<equiv> printICMPResponse w proto data peer sq ttl el st"
  assumes parsed: "ParseMessage (other_bodies w) proto data = Inr reply"
  shows
    "(Type reply \<in> {ipv4_ICMPTypeEchoReply, ipv6_ICMPTypeEchoReply} \<longrightarrow>
        (\<forall>echo_id echo_seq echo_data. Body reply = Echo echo_id echo_seq echo_data \<longrightarrow>
           printed st' = printed st @ [ReplyLine (int (length data)) peer echo_seq ttl (fmt_f 3 el)] \<and>
           stats st' = iterativeStats el ((stats st)\<lparr>received := received (stats st) + 1\<rparr>) \<and>
           counted st st' 1 0 \<and>
           sum1 (stats st') = fadd (sum1 (stats st)) el \<and>
           sum2 (stats st') = fadd (sum2 (stats st)) (fmul el el) \<and>
           min_rtt (stats st') =
             (if received (stats st) = 0 \<or> flt el (min_rtt (stats st)) then el
              else min_rtt (stats st)) \<and>
           max_rtt (stats st') =
             (if flt (max_rtt (stats st)) el then el else max_rtt (stats st)) \<and>
           mean (stats st') = mean (stats st) \<and>
           stddev (stats st') = stddev (stats st)) \<and>
        (\<forall>payload. Body reply = OtherBody payload \<longrightarrow>
           printed st' = printed st @ [InvalidEchoLine] \<and> counted st st' 0 1)) \<and>
     (Type reply \<in> {ipv4_ICMPTypeDestinationUnreachable, ipv6_ICMPTypeDestinationUnreachable} \<longrightarrow>
        printed st' = printed st @ [UnreachableLine peer sq] \<and> counted st st' 0 1) \<and>
     (Type reply \<in> {ipv4_ICMPTypeTimeExceeded, ipv6_ICMPTypeTimeExceeded} \<longrightarrow>
        printed st' = printed st @ [if proto = protocolICMP then TTLExceededLine peer sq
                                    else HopLimitExceededLine peer sq] \<and>
        counted st st' 0 1) \<and>
     (Type reply \<in> {ipv6_ICMPTypeNeighborAdvertisement, ipv6_ICMPTypeNeighborSolicitation,
                     ipv6_ICMPTypeRouterAdvertisement, ipv6_ICMPTypeRouterSolicitation} \<longrightarrow>
        printed st' = printed st @ [InfoV6Line peer sq (Type reply)] \<and> stats st' = stats st) \<and>
     (Type reply \<notin> set named_types \<longrightarrow>
        printed st' = printed st @ [OtherTypeLine peer sq (Type reply)] \<and> counted st st' 0 1) \<and>
     (counted st st' 1 0 \<or> counted st st' 0 1 \<or> counted st st' 0 0)"
proof -
  have echo: "Type reply = ipv4_ICMPTypeEchoReply \<or> Type reply = ipv6_ICMPTypeEchoReply \<Longrightarrow>
      Body reply = Echo a b c \<Longrightarrow>
      printed st' = printed st @ [ReplyLine (int (length data)) peer b ttl (fmt_f 3 el)] \<and>
      stats st' = iterativeStats el ((stats st)\<lparr>received := received (stats st) + 1\<rparr>) \<and>
      counted st st' 1 0" for a b c
    unfolding st'_def
    by (simp add: printICMPResponse_echo_reply [OF parsed] counted_def inc_received_def)
  have fed: "Type reply = ipv4_ICMPTypeEchoReply \<or> Type reply = ipv6_ICMPTypeEchoReply \<Longrightarrow>
      Body reply = Echo a b c \<Longrightarrow>
      sum1 (stats st') = fadd (sum1 (stats st)) el \<and>
      sum2 (stats st') = fadd (sum2 (stats st)) (fmul el el) \<and>
      min_rtt (stats st') =
        (if received (stats st) = 0 \<or> flt el (min_rtt (stats st)) then el
         else min_rtt (stats st)) \<and>
      max_rtt (stats st') = (if flt (max_rtt (stats st)) el then el else max_rtt (stats st)) \<and>
      mean (stats st') = mean (stats st) \<and>
      stddev (stats st') = stddev (stats st)" for a b c
    using echo [of a b c] by (simp add: iterativeStats_fields)
  have invalid: "Type reply = ipv4_ICMPTypeEchoReply \<or> Type reply = ipv6_ICMPTypeEchoReply \<Longrightarrow>
      Body reply = OtherBody p \<Longrightarrow>
      printed st' = printed st @ [InvalidEchoLine] \<and> counted st st' 0 1" for p
    unfolding st'_def
    by (simp add: printICMPResponse_invalid_echo [OF parsed] counted_def)
  have unreachable: "Type reply = ipv4_ICMPTypeDestinationUnreachable \<or>
      Type reply = ipv6_ICMPTypeDestinationUnreachable \<Longrightarrow>
      printed st' = printed st @ [UnreachableLine peer sq] \<and> counted st st' 0 1"
    unfolding st'_def
    by (simp add: printICMPResponse_unreachable [OF parsed] counted_def)
  have exceeded: "Type reply = ipv4_ICMPTypeTimeExceeded \<or> Type reply = ipv6_ICMPTypeTimeExceeded \<Longrightarrow>
      printed st' = printed st @ [if proto = protocolICMP then TTLExceededLine peer sq
                                  else HopLimitExceededLine peer sq] \<and>
      counted st st' 0 1"
    unfolding st'_def
    by (simp add: printICMPResponse_time_exceeded [OF parsed] counted_def)
  have discovery: "Type reply = ipv6_ICMPTypeNeighborAdvertisement \<or>
      Type reply = ipv6_ICMPTypeNeighborSolicitation \<or>
      Type reply = ipv6_ICMPTypeRouterAdvertisement \<or>
      Type reply = ipv6_ICMPTypeRouterSolicitation \<Longrightarrow>
      printed st' = printed st @ [InfoV6Line peer sq (Type reply)] \<and> stats st' = stats st"
    unfolding st'_def
    by (simp add: printICMPResponse_discovery [OF parsed])
  have other: "Type reply \<notin> set named_types \<Longrightarrow>
      printed st' = printed st @ [OtherTypeLine peer sq (Type reply)] \<and> counted st st' 0 1"
    unfolding st'_def
    by (simp add: printICMPResponse_other [OF parsed] counted_def)
  have one: "counted st st' 1 0 \<or> counted st st' 0 1 \<or> counted st st' 0 0"
    unfolding st'_def by (rule printICMPResponse_counters)
  show ?thesis
    using echo fed invalid unreachable exceeded discovery other one by blast
qed

lemma scenario_parse:
  "ParseMessage (other_bodies (scenario_world 4660 raw_bodies 0)) protocolICMP
     (recv_bytes (scenario_network 0 1)) =
   Inr \<lparr>Type = ipv4_ICMPTypeEchoReply, Code = 0, Checksum = 0, Body = Echo 4660 1 []\<rparr>"
  by code_simp

theorem reply_classification_witness:
  "ParseMessage (other_bodies (scenario_world 4660 raw_bodies 0)) protocolICMP
     (recv_bytes (scenario_network 0 1)) =
   Inr \<lparr>Type = ipv4_ICMPTypeEchoReply, Code = 0, Checksum = 0, Body = Echo 4660 1 []\<rparr> \<and>
   printed (printICMPResponse (scenario_world 4660 raw_bodies 0) protocolICMP
              (recv_bytes (scenario_network 0 1)) ''192.0.2.1'' 1 57 (Finite 20)
              \<lparr>stats = zero_stats\<lparr>received := 1, min_rtt := Finite 10, max_rtt := Finite 10,
                                   sum1 := Finite 10, sum2 := Finite 100\<rparr>,
               printed = []\<rparr>) =
     [ReplyLine 8 ''192.0.2.1'' 1 57 (Dec 20000 3)] \<and>
   stats (printICMPResponse (scenario_world 4660 raw_bodies 0) protocolICMP
            (recv_bytes (scenario_network 0 1)) ''192.0.2.1'' 1 57 (Finite 20)
            \<lparr>stats = zero_stats\<lparr>received := 1, min_rtt := Finite 10, max_rtt := Finite 10,
                                 sum1 := Finite 10, sum2 := Finite 100\<rparr>,
             printed = []\<rparr>) =
     zero_stats\<lparr>received := 2, min_rtt := Finite 10, max_rtt := Finite 20,
                sum1 := Finite 30, sum2 := Finite 500\<rparr>"
proof -
  let ?st = "\<lparr>stats = zero_stats\<lparr>received := 1, min_rtt := Finite 10, max_rtt := Finite 10,
                                  sum1 := Finite 10, sum2 := Finite 100\<rparr>,
              printed = []\<rparr>"
  let ?st' = "printICMPResponse (scenario_world 4660 raw_bodies 0) protocolICMP
      (recv_bytes (scenario_network 0 1)) ''192.0.2.1'' 1 57 (Finite 20) ?st"
  let ?reply = "\<lparr>Type = ipv4_ICMPTypeEchoReply, Code = 0, Checksum = 0, Body = Echo 4660 1 []\<rparr>"
  have shown: "fmt_f 3 (Finite 20) = Dec 20000 3"
    by code_simp
  have sums: "fadd (Finite 10) (Finite 20) = Finite 30"
    "fadd (Finite 100) (fmul (Finite 20) (Finite 20)) = Finite 500"
    by code_simp+
  have size: "int (length (recv_bytes (scenario_network 0 1))) = 8"
    by (simp add: scenario_network_def)
  have before: "received (stats ?st) = 1" "sum1 (stats ?st) = Finite 10"
    "sum2 (stats ?st) = Finite 100" "min_rtt (stats ?st) = Finite 10"
    "max_rtt (stats ?st) = Finite 10" "mean (stats ?st) = Finite 0"
    "stddev (stats ?st) = Finite 0" "transmitted (stats ?st) = 0" "errors (stats ?st) = 0"
    "printed ?st = []"
    by (simp_all add: zero_stats_def)
  have "Type ?reply \<in> {ipv4_ICMPTypeEchoReply, ipv6_ICMPTypeEchoReply}"
    and body: "Body ?reply = Echo 4660 1 []"
    by simp_all
  with reply_classification [OF scenario_parse, of "''192.0.2.1''" 1 57 "Finite 20" ?st]
  have "printed ?st' =
      printed ?st @ [ReplyLine (int (length (recv_bytes (scenario_network 0 1)))) ''192.0.2.1'' 1 57
                       (fmt_f 3 (Finite 20))] \<and>
    counted ?st ?st' 1 0 \<and>
    sum1 (stats ?st') = fadd (sum1 (stats ?st)) (Finite 20) \<and>
    sum2 (stats ?st') = fadd (sum2 (stats ?st)) (fmul (Finite 20) (Finite 20)) \<and>
    min_rtt (stats ?st') =
      (if received (stats ?st) = 0 \<or> flt (Finite 20) (min_rtt (stats ?st)) then Finite 20
       else min_rtt (stats ?st)) \<and>
    max_rtt (stats ?st') =
      (if flt (max_rtt (stats ?st)) (Finite 20) then Finite 20 else max_rtt (stats ?st)) \<and>
    mean (stats ?st') = mean (stats ?st) \<and>
    stddev (stats ?st') = stddev (stats ?st)"
    by blast
  then have vals: "printed ?st' = [ReplyLine 8 ''192.0.2.1'' 1 57 (Dec 20000 3)]"
    "transmitted (stats ?st') = 0" "received (stats ?st') = 2" "errors (stats ?st') = 0"
    "sum1 (stats ?st') = Finite 30" "sum2 (stats ?st') = Finite 500"
    "min_rtt (stats ?st') = Finite 10" "max_rtt (stats ?st') = Finite 20"
    "mean (stats ?st') = Finite 0" "stddev (stats ?st') = Finite 0"
    unfolding before size shown sums counted_def by simp_all
  have "stats ?st' = zero_stats\<lparr>received := 2, min_rtt := Finite 10, max_rtt := Finite 20,
      sum1 := Finite 30, sum2 := Finite 500\<rparr>"
    using vals(2-10) by (simp add: zero_stats_def)
  then show ?thesis
    using vals(1) scenario_parse by simp
qed

section \<open>Encoding and decoding an echo request\<close>

lemma get_put_uint16: "get_uint16 (ucast (drop_bit 8 w)) (ucast w) = w"
  by (rule bit_word_eqI) (auto simp: get_uint16_def bit_simps)

lemma uint16_of_int: "0 \<le> n \<Longrightarrow> n < 65536 \<Longrightarrow> uint (word_of_int n :: 16 word) = n"
  by (simp add: uint_word_of_int take_bit_int_eq_self)

lemma pid_mask_range: "0 \<le> (p::int) AND 0xffff \<and> p AND 0xffff < 65536"
proof -
  have "(0xffff::int) = mask 16" by (simp add: mask_eq_exp_minus_1)
  then have "p AND 0xffff = take_bit 16 p" by (simp add: take_bit_eq_mask)
  then show ?thesis using take_bit_int_less_exp [of 16 p] by simp
qed

lemma parseEcho_marshal_body:
  assumes "0 \<le> ident" "ident < 65536" "0 \<le> sq" "sq < 65536"
  shows "parseEcho (marshal_body (Echo ident sq payload)) = Inr (Echo ident sq payload)"
  using assms
  by (simp add: parseEcho_def marshal_body_def put_uint16_def get_put_uint16 uint16_of_int)

lemma Marshal_v6:
  "Marshal \<lparr>Type = ICMPv6 n, Code = c, Checksum = k, Body = body\<rparr> =
     Inr ([word_of_int n, word_of_int c, 0, 0] @ marshal_body body)"
  by (simp add: Marshal_def type_byte_def type_protocol_def)

lemma Marshal_v4:
  "\<exists>k0 k1. Marshal \<lparr>Type = ICMPv4 n, Code = c, Checksum = k, Body = body\<rparr> =
     Inr ([word_of_int n, word_of_int c, k0, k1] @ marshal_body body)"
  by (simp add: Marshal_def type_byte_def type_protocol_def Let_def numeral_2_eq_2 numeral_3_eq_3)

text \<open>
  Claim C8. The bytes that \<^verbatim>\<open>constructMarshalledMessage\<close> produces for a sequence number
  parse, with the protocol of the same family, to a message of the type sent whose body
  carries that sequence number and the identifier \<^verbatim>\<open>os.Getpid() & 0xffff\<close>. The sequence
  number is a 16-bit field on the wire; the numbers of a run are below the count, an
  \<^verbatim>\<open>int8\<close>.
\<close>

theorem echo_roundtrip:
  assumes "0 \<le> seqNum" and "seqNum < 65536"
  shows "(case constructMarshalledMessage w ipv4_ICMPTypeEcho seqNum of
            Inl err \<Rightarrow> False
          | Inr b \<Rightarrow>
              (case ParseMessage other protocolICMP b of
                 Inl err \<Rightarrow> False
               | Inr m \<Rightarrow> Type m = ipv4_ICMPTypeEcho \<and>
                          Body m = Echo (getpid w AND 0xffff) seqNum echo_payload)) \<and>
         (case constructMarshalledMessage w ipv6_ICMPTypeEchoRequest seqNum of
            Inl err \<Rightarrow> False
          | Inr b \<Rightarrow>
              (case ParseMessage other protocolICMPv6 b of
                 Inl err \<Rightarrow> False
               | Inr m \<Rightarrow> Type m = ipv6_ICMPTypeEchoRequest \<and>
                          Body m = Echo (getpid w AND 0xffff) seqNum echo_payload))"
proof -
  have body: "parseEcho (marshal_body (Echo (getpid w AND 0xffff) seqNum echo_payload)) =
      Inr (Echo (getpid w AND 0xffff) seqNum echo_payload)"
    using parseEcho_marshal_body [of "getpid w AND 0xffff" seqNum echo_payload] assms
      pid_mask_range [of "getpid w"]
    by simp
  obtain k0 k1 where "constructMarshalledMessage w ipv4_ICMPTypeEcho seqNum =
      Inr ([8, 0, k0, k1] @ marshal_body (Echo (getpid w AND 0xffff) seqNum echo_payload))"
    using Marshal_v4 [of 8 0 0 "Echo (getpid w AND 0xffff) seqNum echo_payload"]
    by (auto simp add: constructMarshalledMessage_def ipv4_ICMPTypeEcho_def)
  then have v4: "case constructMarshalledMessage w ipv4_ICMPTypeEcho seqNum of
            Inl err \<Rightarrow> False
          | Inr b \<Rightarrow>
              (case ParseMessage other protocolICMP b of
                 Inl err \<Rightarrow> False
               | Inr m \<Rightarrow> Type m = ipv4_ICMPTypeEcho \<and>
                          Body m = Echo (getpid w AND 0xffff) seqNum echo_payload)"
    using body
    by (simp add: ParseMessage_def protocolICMP_def is_echo_type_def ipv4_ICMPTypeEcho_def)
  have v6: "case constructMarshalledMessage w ipv6_ICMPTypeEchoRequest seqNum of
            Inl err \<Rightarrow> False
          | Inr b \<Rightarrow>
              (case ParseMessage other protocolICMPv6 b of
                 Inl err \<Rightarrow> False
               | Inr m \<Rightarrow> Type m = ipv6_ICMPTypeEchoRequest \<and>
                          Body m = Echo (getpid w AND 0xffff) seqNum echo_payload)"
    using body
    by (simp add: constructMarshalledMessage_def Marshal_v6 ParseMessage_def protocolICMPv6_def
        is_echo_type_def type_defs)
  from v4 v6 show ?thesis by simp
qed

theorem echo_roundtrip_witness:
  "(0::int) \<le> 3 \<and> (3::int) < 65536 \<and>
   getpid (scenario_world 70000 raw_bodies 0) AND 0xffff = 4464 \<and>
   (case constructMarshalledMessage (scenario_world 70000 raw_bodies 0) ipv4_ICMPTypeEcho 3 of
      Inl err \<Rightarrow> False
    | Inr b \<Rightarrow>
        (case ParseMessage raw_bodies protocolICMP b of
           Inl err \<Rightarrow> False
         | Inr m \<Rightarrow> Type m = ipv4_ICMPTypeEcho \<and>
                    Body m = Echo (getpid (scenario_world 70000 raw_bodies 0) AND 0xffff) 3
                               echo_payload))"
proof -
  have lo: "(0::int) \<le> 3" and hi: "(3::int) < 65536"
    by simp_all
  have pid: "getpid (scenario_world 70000 raw_bodies 0) AND 0xffff = 4464"
    by (simp add: scenario_world_def)
  note both = echo_roundtrip [OF lo hi, of "scenario_world 70000 raw_bodies 0" raw_bodies]
  show ?thesis
    by (intro conjI lo hi pid conjunct1 [OF both])
qed

section \<open>Literal addresses\<close>

lemma is_digit_not_separator:
  "is_digit c \<Longrightarrow> c \<noteq> CHR ''.'' \<and> c \<noteq> CHR '':'' \<and> c \<noteq> CHR ''%''"
  by (auto simp add: is_digit_def)

lemma ipv4_fields_separator:
  "ipv4_fields s v d fs = Some q \<Longrightarrow> length fs < 3 \<Longrightarrow> first_separator s = Some CHR ''.''"
proof (induction s arbitrary: v d fs)
  case Nil
  then show ?case by simp
next
  case (Cons c cs)
  show ?case
  proof (cases "is_digit c")
    case True
    with Cons.prems have "\<exists>v' d'. ipv4_fields cs v' d' fs = Some q"
      by (auto simp add: Let_def split: if_splits)
    then show ?thesis
      using Cons.IH Cons.prems(2) True is_digit_not_separator [of c] by auto
  next
    case False
    with Cons.prems show ?thesis by (simp split: if_splits)
  qed
qed

lemma ipv4_fields_length: "ipv4_fields s v d fs = Some q \<Longrightarrow> length q = 4"
proof (induction s arbitrary: v d fs)
  case Nil
  then show ?case by (auto split: if_splits)
next
  case (Cons c cs)
  then show ?case by (auto simp add: Let_def split: if_splits)
qed

lemma ParseIP_v4:
  assumes "parseIPv4 s = Some q"
  shows "ParseIP r s = Some (v4_in_v6_prefix @ map of_nat q)"
proof -
  have "first_separator s = Some CHR ''.''"
    using assms ipv4_fields_separator [of s 0 0 "[]" q] by (simp add: parseIPv4_def)
  with assms show ?thesis by (simp add: ParseIP_def)
qed

lemma valIPv6_of_v4:
  assumes "parseIPv4 s = Some q"
  shows "valIPv6 r s = (True, None)"
proof -
  have "length q = 4"
    using assms ipv4_fields_length [of s 0 0 "[]" q] by (simp add: parseIPv4_def)
  then show ?thesis
    using ParseIP_v4 [OF assms, of r]
    by (simp add: valIPv6_def To16_def v4_in_v6_prefix_def)
qed

lemma valIPv4_of_v4:
  assumes "parseIPv4 s = Some q"
  shows "valIPv4 r s = (True, None)"
proof -
  have "length q = 4"
    using assms ipv4_fields_length [of s 0 0 "[]" q] by (simp add: parseIPv4_def)
  then show ?thesis
    using ParseIP_v4 [OF assms, of r]
    by (simp add: valIPv4_def To4_def v4_in_v6_prefix_def)
qed

lemma parseIPv4_example: "parseIPv4 ''8.8.8.8'' = Some [8, 8, 8, 8]"
  by code_simp

lemma validateHostname_example: "validateHostname ''8.8.8.8'' = False"
  by code_simp

text \<open>
  Claim C10. \<^verbatim>\<open>valIPv6\<close> answers true for every string that is an IPv4 address in dotted
  decimal: \<^verbatim>\<open>net.ParseIP\<close> returns 16 bytes for it and \<^verbatim>\<open>To16\<close> is not nil. So for the
  literal \<open>8.8.8.8\<close> with the options \<open>V4 = False\<close>, \<open>V6 = True\<close> the resolution succeeds
  with that address and \<open>IsIPv6 = True\<close>, and \<^verbatim>\<open>Run\<close> starts the IPv6 handler with an IPv4
  destination.
\<close>

theorem ipv4_literal_taken_for_ipv6:
  assumes "parseIPv4 s = Some q"
  shows "valIPv6 r s = (True, None) \<and>
         AddrResolution r ''8.8.8.8'' \<lparr>V4 = False, V6 = True\<rparr> =
           (\<lparr>Addr = ''8.8.8.8'', IsIPv6 = True\<rparr>, None) \<and>
         handler_of (fst (AddrResolution r ''8.8.8.8'' \<lparr>V4 = False, V6 = True\<rparr>)) = IPv6Family \<and>
         Run r w \<lparr>v4Flag = False, v6Flag = True, ifaceFlag = iface, ttlFlag = t, cntFlag = c\<rparr>
             ''8.8.8.8'' =
           ICMP6Handler w \<lparr>IP = ''8.8.8.8'', Iface = iface, TTL = sint t, CNT = sint c\<rparr>"
proof -
  have res: "AddrResolution r ''8.8.8.8'' \<lparr>V4 = False, V6 = True\<rparr> =
      (\<lparr>Addr = ''8.8.8.8'', IsIPv6 = True\<rparr>, None)"
    using valIPv6_of_v4 [OF parseIPv4_example, of r]
    by (simp add: AddrResolution_def validateHostname_example)
  show ?thesis
    using valIPv6_of_v4 [OF assms, of r]
    by (simp add: res Run_def handler_of_def)
qed

theorem ipv4_literal_taken_for_ipv6_witness:
  "parseIPv4 ''192.0.2.1'' = Some [192, 0, 2, 1] \<and>
   valIPv6 dual_stack_resolver ''192.0.2.1'' = (True, None)"
proof -
  have p: "parseIPv4 ''192.0.2.1'' = Some [192, 0, 2, 1]"
    by code_simp
  show ?thesis
    using ipv4_literal_taken_for_ipv6 [OF p, of dual_stack_resolver] p by simp
qed

section \<open>Both options set\<close>

text \<open>
  With both options set \<^verbatim>\<open>HostToAddr\<close> fails before it looks the host up.
\<close>

lemma HostToAddr_both_options:
  "HostToAddr r host \<lparr>V4 = True, V6 = True\<rparr> =
     (no_addr, Some ''only one -4 or -6 option may be specified'')"
  by (simp add: HostToAddr_def)

lemma AddrResolution_hostname_both_options:
  "validateHostname host \<Longrightarrow>
   AddrResolution r host \<lparr>V4 = True, V6 = True\<rparr> =
     (no_addr, Some ''only one -4 or -6 option may be specified'')"
  by (simp add: AddrResolution_def HostToAddr_both_options)

text \<open>
  Claim C5 says that the resolution fails for every host string when both options are
  set. \<^verbatim>\<open>AddrResolution\<close> checks the two options only on the path of a hostname, in
  \<^verbatim>\<open>HostToAddr\<close>. A literal address does not reach that check: for \<open>8.8.8.8\<close> with both
  options set the resolution succeeds, and \<^verbatim>\<open>Run\<close> goes on to the IPv6 handler, which
  opens the socket.
\<close>

theorem literal_address_with_both_options:
  "AddrResolution r ''8.8.8.8'' \<lparr>V4 = True, V6 = True\<rparr> =
     (\<lparr>Addr = ''8.8.8.8'', IsIPv6 = True\<rparr>, None) \<and>
   Run r w \<lparr>v4Flag = True, v6Flag = True, ifaceFlag = iface, ttlFlag = t, cntFlag = c\<rparr>
       ''8.8.8.8'' =
     ICMP6Handler w \<lparr>IP = ''8.8.8.8'', Iface = iface, TTL = sint t, CNT = sint c\<rparr>"
proof -
  have res: "AddrResolution r ''8.8.8.8'' \<lparr>V4 = True, V6 = True\<rparr> =
      (\<lparr>Addr = ''8.8.8.8'', IsIPv6 = True\<rparr>, None)"
    using valIPv6_of_v4 [OF parseIPv4_example, of r]
    by (simp add: AddrResolution_def validateHostname_example)
  show ?thesis
    by (simp add: res Run_def handler_of_def)
qed

section \<open>No option set\<close>

text \<open>
  With no option set \<^verbatim>\<open>HostToAddr\<close> takes the first address of the lookup, of whatever
  family, and reports what \<^verbatim>\<open>valIPv6\<close> says of it.
\<close>

lemma HostToAddr_no_option:
  "LookupHost r host = Inr (ip # ips) \<Longrightarrow>
   HostToAddr r host \<lparr>V4 = False, V6 = False\<rparr> =
     (\<lparr>Addr = ip, IsIPv6 = fst (valIPv6 r ip)\<rparr>, None)"
  by (simp add: HostToAddr_def)

text \<open>
  Claim C6 says that a host with addresses of both families resolves to an IPv4 address
  when no option is set. For the host \<open>example.com\<close>, whose lookup answers
  \<open>2001:db8::1\<close> and then \<open>192.0.2.1\<close>, \<^verbatim>\<open>HostToAddr\<close> returns the IPv6 address: the first
  of the answer, which \<^verbatim>\<open>valIPv4\<close> rejects, although the second is an IPv4 address.
\<close>

theorem first_address_without_options:
  "validateHostname ''example.com'' \<and>
   LookupHost dual_stack_resolver ''example.com'' = Inr [''2001:db8::1'', ''192.0.2.1''] \<and>
   HostToAddr dual_stack_resolver ''example.com'' \<lparr>V4 = False, V6 = False\<rparr> =
     (\<lparr>Addr = ''2001:db8::1'', IsIPv6 = True\<rparr>, None) \<and>
   valIPv4 dual_stack_resolver ''2001:db8::1'' = (False, None) \<and>
   valIPv4 dual_stack_resolver ''192.0.2.1'' = (True, None)"
  by code_simp

section \<open>The accuracy of the rounding\<close>

text \<open>
  \<open>ilog2\<close> is the binary exponent, the rounding to an integer is off by at most a half,
  and so a rounding to binary64 inside the normal range is off by at most the fraction
  \<open>2 ^ -53\<close> of the value; an integer below \<open>2 ^ 53\<close> is a float.
\<close>

lemma pow2_powi: "pow2 e = 2 powi e"
  by (simp add: pow2_def power_int_def inverse_eq_divide power_one_over)

lemma pow2_pos [simp]: "0 < pow2 e"
  by (simp add: pow2_powi)

lemma pow2_nonzero [simp]: "pow2 e \<noteq> 0"
  using pow2_pos [of e] by (simp del: pow2_pos)


lemma pow2_nonneg [simp]: "0 \<le> pow2 e"
  using pow2_pos [of e] by (simp del: pow2_pos)














section \<open>The printed loss\<close>





section \<open>The summary\<close>

text \<open>
  The rounding at some known values: 0.2 and 0.1 as binary64 numbers, a tie between two
  floats (to the even significand), the square root of 2, and the division by zero.
\<close>

lemma round64_examples:
  "round64 (1 / 5) = Finite (3602879701896397 / 18014398509481984)"
  "round64 (1 / 10) = Finite (3602879701896397 / 36028797018963968)"
  "round64 (2 ^ 53 + 1) = Finite (2 ^ 53)"
  "round64 (2 ^ 53 + 3) = Finite (2 ^ 53 + 4)"
  "round64 (- 7 / 2) = Finite (- 7 / 2)"
  "sqrt64 2 = Finite (6369051672525773 / 4503599627370496)"
  "sqrt64 (9 / 4) = Finite (3 / 2)"
  "fdiv (Finite 1) (Finite 0) = PosInf"
  "fdiv (Finite 0) (Finite 0) = NaN"
  by code_simp+

lemma round_half_even_zero [simp]: "round_half_even 0 = 0"
  by (simp add: round_half_even_def)

lemma float64_of_int_zero [simp]: "float64_of_int 0 = Finite 0"
  by (simp add: float64_of_int_def round64_def)

text \<open>
  Outside the counts of a run the function is still defined: a count of transmitted probes
  that is negative gives 0, a difference of the counters that leaves the 64 bits wraps, and
  a negative loss that rounds to zero prints with its sign.
\<close>

lemma dropPercentage_outside_counts:
  "fmt_f 1 (dropPercentage (zero_stats\<lparr>transmitted := - 1\<rparr>)) = Dec 0 1"
  "fmt_f 1 (dropPercentage (zero_stats\<lparr>transmitted := 2 ^ 63 - 1, received := - 1\<rparr>)) =
     Dec (- 1000) 1"
  "fmt_f 1 (dropPercentage (zero_stats\<lparr>transmitted := 1000000, received := 1000001\<rparr>)) =
     NegZero 1"
  by code_simp+




section \<open>A run without replies\<close>

text \<open>
  Claim C2 says that \<^verbatim>\<open>finalStats\<close> is never invoked with \<open>received = 0\<close>.
  \<^verbatim>\<open>PrintStatistics\<close> does guard its call, and prints no round-trip line when nothing was
  received; but both handlers call \<^verbatim>\<open>stats.finalStats()\<close> themselves, unguarded, before
  they call \<^verbatim>\<open>PrintStatistics\<close>. In a run with a count of 0 the handler divides 0 by 0:
  the mean and the deviation it leaves are NaN (a division of floats does not panic), and
  the summary has its header and its counts line and no round-trip line.
\<close>

theorem finalStats_without_replies:
  "run_stats (ICMP4Handler (w\<lparr>listen_error := \<lambda>net. None\<rparr>)
                \<lparr>IP = ip, Iface = [], TTL = ttl, CNT = 0\<rparr>) =
     zero_stats\<lparr>mean := NaN, stddev := NaN\<rparr> \<and>
   run_output (ICMP4Handler (w\<lparr>listen_error := \<lambda>net. None\<rparr>)
                 \<lparr>IP = ip, Iface = [], TTL = ttl, CNT = 0\<rparr>) =
     [StartLine ip pingDataSize None, StatsHeaderLine ''target'', CountsLine 0 0 0 (Dec 0 1)] \<and>
   run_stats (ICMP6Handler (w\<lparr>listen_error := \<lambda>net. None\<rparr>)
                \<lparr>IP = ip, Iface = [], TTL = ttl, CNT = 0\<rparr>) =
     zero_stats\<lparr>min_rtt := Finite (- 1), mean := NaN, stddev := NaN\<rparr> \<and>
   finalStats zero_stats = zero_stats\<lparr>mean := NaN, stddev := NaN\<rparr>"
  by (simp add: ICMP4Handler_def ICMP6Handler_def handler_def finish_def finalStats_def
      PrintStatistics_def dropPercentage_def zero_stats_def start_line_def inf_of_sign_def
      fsub_def fpow2_def)

section \<open>Five probes, one timeout\<close>

lemma scenario_loop4:
  "probe_loop (scenario_world pid other 0) protocolICMP ipv4_ICMPTypeEcho 5
      \<lparr>stats = zero_stats, printed = [StartLine ''192.0.2.1'' 64 None]\<rparr> =
   \<lparr>stats = \<lparr>transmitted = 5, received = 4, errors = 1, min_rtt = Finite 10,
             max_rtt = Finite 40, sum1 = Finite 100, sum2 = Finite 3000,
             mean = Finite 0, stddev = Finite 0\<rparr>,
    printed = [StartLine ''192.0.2.1'' 64 None,
               ReplyLine 8 ''192.0.2.1'' 0 57 (Dec 10000 3),
               ReplyLine 8 ''192.0.2.1'' 1 57 (Dec 20000 3),
               TimeoutLine 2,
               ReplyLine 8 ''192.0.2.1'' 3 57 (Dec 30000 3),
               ReplyLine 8 ''192.0.2.1'' 4 57 (Dec 40000 3)]\<rparr>"
  apply (simp only: eval_nat_numeral probe_loop.simps probe_iteration_v4)
  apply code_simp
  done

lemma scenario_loop6:
  "probe_loop (scenario_world pid other 129) protocolICMPv6 ipv6_ICMPTypeEchoRequest 5
      \<lparr>stats = zero_stats\<lparr>min_rtt := Finite (- 1)\<rparr>,
       printed = [StartLine ''192.0.2.1'' 64 None]\<rparr> =
   \<lparr>stats = \<lparr>transmitted = 5, received = 4, errors = 1, min_rtt = Finite 10,
             max_rtt = Finite 40, sum1 = Finite 100, sum2 = Finite 3000,
             mean = Finite 0, stddev = Finite 0\<rparr>,
    printed = [StartLine ''192.0.2.1'' 64 None,
               ReplyLine 8 ''192.0.2.1'' 0 57 (Dec 10000 3),
               ReplyLine 8 ''192.0.2.1'' 1 57 (Dec 20000 3),
               TimeoutLine 2,
               ReplyLine 8 ''192.0.2.1'' 3 57 (Dec 30000 3),
               ReplyLine 8 ''192.0.2.1'' 4 57 (Dec 40000 3)]\<rparr>"
  apply (simp only: eval_nat_numeral probe_loop.simps probe_iteration_v6)
  apply code_simp
  done

lemma scenario_finish:
  "finish \<lparr>stats = \<lparr>transmitted = 5, received = 4, errors = 1, min_rtt = Finite 10,
                    max_rtt = Finite 40, sum1 = Finite 100, sum2 = Finite 3000,
                    mean = Finite 0, stddev = Finite 0\<rparr>,
           printed = ls\<rparr> =
   \<lparr>run_stats = \<lparr>transmitted = 5, received = 4, errors = 1, min_rtt = Finite 10,
                 max_rtt = Finite 40, sum1 = Finite 100, sum2 = Finite 3000,
                 mean = Finite 25,
                 stddev = Finite (3146985909450985 / 281474976710656)\<rparr>,
    run_output = ls @ [StatsHeaderLine ''target'', CountsLine 5 4 1 (Dec 200 1),
                       RoundTripLine (Dec 10000 3) (Dec 25000 3) (Dec 40000 3) (Dec 11180 3)],
    exit_code = None\<rparr>"
  by code_simp

lemma scenario_loss:
  "dropPercentage \<lparr>transmitted = 5, received = 4, errors = 1, min_rtt = Finite 10,
                   max_rtt = Finite 40, sum1 = Finite 100, sum2 = Finite 3000,
                   mean = Finite 25,
                   stddev = Finite (3146985909450985 / 281474976710656)\<rparr> = Finite 20"
  by code_simp

lemma scenario_start: "start_line scenario_info = StartLine ''192.0.2.1'' 64 None"
  by (simp add: start_line_def scenario_info_def pingDataSize_def)

lemma scenario_handler:
  "handler (scenario_world pid other t) scenario_info s0 proto net msgType =
     finish (probe_loop (scenario_world pid other t) proto msgType 5
               \<lparr>stats = s0, printed = [StartLine ''192.0.2.1'' 64 None]\<rparr>)"
proof -
  have "Iface scenario_info = []" and "nat (CNT scenario_info) = 5"
    by (simp_all add: scenario_info_def)
  moreover have "listen_error (scenario_world pid other t) net = None"
    by (simp add: scenario_world_def)
  ultimately show ?thesis
    by (simp add: handler_def scenario_start)
qed

text \<open>
  Claim C3. Five probes, of which the one with sequence number 2 ends in a timeout of the
  read and the others get an echo reply after 10, 20, 30 and 40 ms: the handler (of either
  family) ends with \<open>transmitted = 5\<close>, \<open>received = 4\<close>, \<open>errors = 1\<close>, the minimum 10, the
  maximum 40 and the mean 25; the loss is 20, printed as 20.0.
\<close>

theorem five_probes_one_timeout:
  fixes pid :: int and other :: body_parser
  defines "final \<equiv> \<lparr>transmitted = 5, received = 4, errors = 1, min_rtt = Finite 10,
                      max_rtt = Finite 40, sum1 = Finite 100, sum2 = Finite 3000,
                      mean = Finite 25,
                      stddev = Finite (3146985909450985 / 281474976710656)\<rparr>"
    and "summary \<equiv> [StatsHeaderLine ''target'', CountsLine 5 4 1 (Dec 200 1),
                     RoundTripLine (Dec 10000 3) (Dec 25000 3) (Dec 40000 3) (Dec 11180 3)]"
    and "probes \<equiv> [StartLine ''192.0.2.1'' 64 None,
                    ReplyLine 8 ''192.0.2.1'' 0 57 (Dec 10000 3),
                    ReplyLine 8 ''192.0.2.1'' 1 57 (Dec 20000 3),
                    TimeoutLine 2,
                    ReplyLine 8 ''192.0.2.1'' 3 57 (Dec 30000 3),
                    ReplyLine 8 ''192.0.2.1'' 4 57 (Dec 40000 3)]"
  shows "ICMP4Handler (scenario_world pid other 0) scenario_info =
           \<lparr>run_stats = final, run_output = probes @ summary, exit_code = None\<rparr> \<and>
         ICMP6Handler (scenario_world pid other 129) scenario_info =
           \<lparr>run_stats = final, run_output = probes @ summary, exit_code = None\<rparr> \<and>
         dropPercentage final = Finite 20"
proof -
  have v4: "ICMP4Handler (scenario_world pid other 0) scenario_info =
      \<lparr>run_stats = final, run_output = probes @ summary, exit_code = None\<rparr>"
    unfolding final_def summary_def probes_def ICMP4Handler_def scenario_handler scenario_loop4
      scenario_finish
    by simp
  have v6: "ICMP6Handler (scenario_world pid other 129) scenario_info =
      \<lparr>run_stats = final, run_output = probes @ summary, exit_code = None\<rparr>"
    unfolding final_def summary_def probes_def ICMP6Handler_def scenario_handler scenario_loop6
      scenario_finish
    by simp
  show ?thesis
    using v4 v6 scenario_loss by (simp add: final_def)
qed

end
